theory Spec2Isabelle
  imports Complex_Main
begin

section \<open>JavaScript values\<close>

text \<open>
  The front end is JavaScript: what it receives from the API is parsed JSON, and
  it reads that data by property access, truthiness tests and string conversion.
  \<open>jv\<close> is the type of those values. \<open>JUndefined\<close> is JavaScript's \<open>undefined\<close>,
  also the value of an argument that a call leaves out. Numbers are the integers
  (counts and lengths are all the code reads as numbers): \<open>JNum n\<close> is the number
  that the JSON text of the integer \<open>n\<close> denotes, the double nearest to \<open>n\<close>.
  Strings are ASCII, so that a character is one unit of \<open>length\<close>. An object is the
  list of its own properties, in the order they are written.
\<close>

datatype jv =
    JUndefined
  | JNull
  | JBool bool
  | JNum int
  | JStr string
  | JArr "jv list"
  | JObj "(string \<times> jv) list"

text \<open>Truthiness, as tested by \<open>if (v)\<close>, \<open>!v\<close>, \<open>a && b\<close> and \<open>a || b\<close>.\<close>

fun truthy :: "jv \<Rightarrow> bool" where
  "truthy JUndefined = False"
| "truthy JNull = False"
| "truthy (JBool b) = b"
| "truthy (JNum n) = (n \<noteq> 0)"
| "truthy (JStr s) = (s \<noteq> [])"
| "truthy (JArr xs) = True"
| "truthy (JObj kvs) = True"

text \<open>
  Property access \<open>v.k\<close>. On \<open>undefined\<close> and \<open>null\<close> it throws a TypeError
  (\<open>None\<close>); on an object it is the property's value, \<open>undefined\<close> when the object
  has no such property, and the last one listed when a key is listed twice (as in a
  JSON text and in an object literal); arrays and strings have \<open>length\<close>. The keys
  the code reads are data keys of the JSON payload and \<open>length\<close>, never the name of
  a property that objects inherit.
\<close>

fun js_get :: "jv \<Rightarrow> string \<Rightarrow> jv option" where
  "js_get JUndefined k = None"
| "js_get JNull k = None"
| "js_get (JObj kvs) k = Some (case map_of (rev kvs) k of None \<Rightarrow> JUndefined | Some v \<Rightarrow> v)"
| "js_get (JArr xs) k = Some (if k = ''length'' then JNum (int (length xs)) else JUndefined)"
| "js_get (JStr s) k = Some (if k = ''length'' then JNum (int (length s)) else JUndefined)"
| "js_get (JBool b) k = Some JUndefined"
| "js_get (JNum n) k = Some JUndefined"

text \<open>Optional chaining \<open>v?.k\<close>: \<open>undefined\<close> where \<open>v.k\<close> would throw.\<close>

definition js_get_opt :: "jv \<Rightarrow> string \<Rightarrow> jv" where
  "js_get_opt v k = (case js_get v k of None \<Rightarrow> JUndefined | Some x \<Rightarrow> x)"

text \<open>\<open>a || b\<close>.\<close>

definition js_or :: "jv \<Rightarrow> jv \<Rightarrow> jv" where
  "js_or a b = (if truthy a then a else b)"

text \<open>A default parameter \<open>(x = d)\<close>: the default stands in for \<open>undefined\<close> only.\<close>

definition dflt :: "jv \<Rightarrow> jv \<Rightarrow> jv" where
  "dflt d v = (if v = JUndefined then d else v)"

section \<open>JavaScript numbers\<close>

text \<open>
  A JavaScript number is an IEEE 754 double: NaN, an infinity, or a finite value
  with a sign, zero included (\<open>Fin True 0\<close> is \<open>-0\<close>). \<open>Fin s m\<close> is the double of
  magnitude \<open>m\<close>, negative when \<open>s\<close>. An arithmetic operation on finite operands
  returns the exact result rounded to the nearest double, ties to the even
  significand (53 bits, exponents from -1022 to 1023, subnormals below), and an
  infinity from the overflow threshold on.
\<close>

datatype double = NaN | Infty bool | Fin bool rat

definition overflow_threshold :: rat where
  "overflow_threshold = 2 ^ 1024 - 2 ^ 970"

text \<open>The number of binary digits of a positive integer.\<close>

function bit_length :: "int \<Rightarrow> nat" where
  "bit_length n = (if n \<le> 0 then 0 else Suc (bit_length (n div 2)))"
  by pat_completeness auto
termination
  by (relation "measure nat") auto

declare bit_length.simps [simp del]

text \<open>For \<open>a > 0\<close>, the exponent \<open>e\<close> with \<open>2 ^ e \<le> a < 2 ^ (e + 1)\<close>.\<close>

definition floor_log2 :: "rat \<Rightarrow> int" where
  "floor_log2 a =
     (if 1 \<le> a then int (bit_length \<lfloor>a\<rfloor>) - 1
      else let t = int (bit_length \<lfloor>1 / a\<rfloor>) - 1
           in if a * power_int 2 t = 1 then - t else - t - 1)"

definition round_half_even :: "rat \<Rightarrow> int" where
  "round_half_even x =
     (let f = \<lfloor>x\<rfloor>; d = x - of_int f
      in if d < 1 / 2 then f else if 1 / 2 < d then f + 1 else if even f then f else f + 1)"

text \<open>The double nearest to the exact magnitude \<open>a\<close>, with sign \<open>s\<close>.\<close>

definition round_to_double :: "bool \<Rightarrow> rat \<Rightarrow> double" where
  "round_to_double s a =
     (if a = 0 then Fin s 0
      else if overflow_threshold \<le> a then Infty s
      else let e = max (floor_log2 a) (- 1022);
               ulp = power_int 2 (e - 52)
           in Fin s (of_int (round_half_even (a / ulp)) * ulp))"

text \<open>\<open>x / y\<close>.\<close>

fun js_divide :: "double \<Rightarrow> double \<Rightarrow> double" where
  "js_divide NaN y = NaN"
| "js_divide x NaN = NaN"
| "js_divide (Infty s) (Infty t) = NaN"
| "js_divide (Infty s) (Fin t n) = Infty (s \<noteq> t)"
| "js_divide (Fin s m) (Infty t) = Fin (s \<noteq> t) 0"
| "js_divide (Fin s m) (Fin t n) =
     (if n = 0 then (if m = 0 then NaN else Infty (s \<noteq> t))
      else round_to_double (s \<noteq> t) (m / n))"

text \<open>\<open>x * y\<close>.\<close>

fun js_times :: "double \<Rightarrow> double \<Rightarrow> double" where
  "js_times NaN y = NaN"
| "js_times x NaN = NaN"
| "js_times (Infty s) (Infty t) = Infty (s \<noteq> t)"
| "js_times (Infty s) (Fin t n) = (if n = 0 then NaN else Infty (s \<noteq> t))"
| "js_times (Fin s m) (Infty t) = (if m = 0 then NaN else Infty (s \<noteq> t))"
| "js_times (Fin s m) (Fin t n) = round_to_double (s \<noteq> t) (m * n)"

text \<open>
  \<open>Math.round\<close>: the nearest integer, a tie going up; the result keeps the sign of
  its argument when it is zero.
\<close>

fun math_round :: "double \<Rightarrow> double" where
  "math_round NaN = NaN"
| "math_round (Infty s) = Infty s"
| "math_round (Fin s m) =
     (let n = \<lfloor>(if s then - m else m) + 1 / 2\<rfloor>
      in if n = 0 then Fin s 0 else Fin (n < 0) (of_int \<bar>n\<bar>))"


section \<open>String conversion\<close>

text \<open>The decimal digits of an integer that is not negative.\<close>

definition digit_char :: "int \<Rightarrow> char" where
  "digit_char d = char_of (48 + d)"

function show_digits :: "int \<Rightarrow> string" where
  "show_digits n = (if n < 10 then [digit_char n] else show_digits (n div 10) @ [digit_char (n mod 10)])"
  by pat_completeness auto
termination
  by (relation "measure nat") auto

declare show_digits.simps [simp del]

definition show_nat :: "nat \<Rightarrow> string" where
  "show_nat n = show_digits (int n)"

definition show_int :: "int \<Rightarrow> string" where
  "show_int i = (if i < 0 then CHR ''-'' # show_digits (- i) else show_digits i)"

text \<open>
  The text of a number, for a positive integer \<open>x\<close> that is a double. The language
  standard takes integers \<open>k\<close>, \<open>s\<close> and \<open>n\<close> with \<open>s\<close> of \<open>k\<close> digits, such that
  \<open>s * 10 ^ (n - k)\<close> reads back as the double \<open>x\<close>, with \<open>k\<close> as small as possible;
  of several such \<open>s\<close> the engines take the one that is closest to \<open>x\<close>, the even one
  on a tie. \<open>n\<close> is the number of digits of \<open>x\<close>, or one more when \<open>x\<close> is written as
  the next power of ten; for each \<open>k\<close> the candidates are the two multiples of
  \<open>10 ^ (n - k)\<close> around \<open>x\<close>.
\<close>

definition reads_back :: "int \<Rightarrow> int \<Rightarrow> bool" where
  "reads_back x v = (round_to_double False (of_int v) = Fin False (of_int x))"

definition digit_candidates :: "int \<Rightarrow> nat \<Rightarrow> (int \<times> nat) list" where
  "digit_candidates x k =
     concat (map (\<lambda>n. concat (map (\<lambda>s.
         if 10 ^ (k - 1) \<le> s \<and> s < 10 ^ k \<and> reads_back x (s * 10 ^ (n - k)) then [(s, n)] else [])
       [x div 10 ^ (n - k), x div 10 ^ (n - k) + 1]))
     [length (show_digits x), Suc (length (show_digits x))])"

text \<open>How far the candidate \<open>s * 10 ^ (n - k)\<close> is from \<open>x\<close>, and the closest of a list.\<close>

definition off_by :: "int \<Rightarrow> nat \<Rightarrow> int \<times> nat \<Rightarrow> int" where
  "off_by x k c = (case c of (s, n) \<Rightarrow> \<bar>s * 10 ^ (n - k) - x\<bar>)"

fun nearest :: "int \<Rightarrow> nat \<Rightarrow> (int \<times> nat) list \<Rightarrow> (int \<times> nat) option" where
  "nearest x k [] = None"
| "nearest x k (c # cs) =
     (case nearest x k cs of
        None \<Rightarrow> Some c
      | Some c' \<Rightarrow>
          Some (if off_by x k c < off_by x k c' \<or> (off_by x k c = off_by x k c' \<and> even (fst c))
                then c else c'))"

text \<open>
  \<open>k\<close>, \<open>s\<close> and \<open>n\<close> for \<open>x\<close>. With all the digits of \<open>x\<close> (\<open>k = n\<close>, \<open>s = x\<close>) a
  double reads back as itself, so the search finds a \<open>k\<close>.
\<close>

definition shortest_digits :: "int \<Rightarrow> nat \<times> int \<times> nat" where
  "shortest_digits x =
     (let d = length (show_digits x)
      in case List.find (\<lambda>k. digit_candidates x k \<noteq> []) [1..<Suc d] of
           None \<Rightarrow> (d, x, d)
         | Some k \<Rightarrow>
             (case nearest x k (digit_candidates x k) of
                None \<Rightarrow> (d, x, d)
              | Some (s, n) \<Rightarrow> (k, s, n)))"

text \<open>
  Up to 21 digits the number is written in full, the digits of \<open>s\<close> followed by
  zeros; above, with an exponent.
\<close>

definition digits_text :: "int \<Rightarrow> string" where
  "digits_text x =
     (case shortest_digits x of
        (k, s, n) \<Rightarrow>
          if n \<le> 21 then show_digits s @ replicate (n - k) (CHR ''0'')
          else if k = 1 then show_digits s @ ''e+'' @ show_nat (n - 1)
          else hd (show_digits s) # CHR ''.'' # tl (show_digits s) @ ''e+'' @ show_nat (n - 1))"

text \<open>
  The text of \<open>JNum n\<close>. An integer up to \<open>2 ^ 53\<close> in magnitude is a double and is
  written with all its digits. A larger one is first the double nearest to it,
  which may be an infinity.
\<close>

definition number_text :: "int \<Rightarrow> string" where
  "number_text n =
     (if \<bar>n\<bar> \<le> 2 ^ 53 then show_int n
      else case round_to_double (n < 0) (of_int \<bar>n\<bar>) of
             NaN \<Rightarrow> ''NaN''
           | Infty s \<Rightarrow> (if s then ''-Infinity'' else ''Infinity'')
           | Fin s q \<Rightarrow> (if s then ''-'' else []) @ digits_text \<lfloor>q\<rfloor>)"

text \<open>\<open>Array.prototype.join\<close> with a separator.\<close>

fun join :: "string \<Rightarrow> string list \<Rightarrow> string" where
  "join sep [] = []"
| "join sep [s] = s"
| "join sep (s # t # ss) = s @ sep @ join sep (t # ss)"

text \<open>
  String conversion, as a template literal \<open>`${v}`\<close> does it; \<open>None\<close> when it throws
  a TypeError. An array is its elements joined by commas, \<open>null\<close> and \<open>undefined\<close>
  elements giving the empty string. An object of a JSON payload is converted by
  the \<open>toString\<close> it inherits, to \<open>[object Object]\<close>, unless it has a property of
  its own named \<open>toString\<close>: that property holds data, not a function, so the
  conversion goes on to \<open>valueOf\<close>, which is data as well or returns the object
  itself, and throws.
\<close>

fun to_str :: "jv \<Rightarrow> string option" where
  "to_str JUndefined = Some ''undefined''"
| "to_str JNull = Some ''null''"
| "to_str (JBool b) = Some (if b then ''true'' else ''false'')"
| "to_str (JNum n) = Some (number_text n)"
| "to_str (JStr s) = Some s"
| "to_str (JArr xs) =
     map_option (join '','')
       (those (map (\<lambda>v. if v = JUndefined \<or> v = JNull then Some [] else to_str v) xs))"
| "to_str (JObj kvs) =
     (if ''toString'' \<in> fst ` set kvs then None else Some ''[object Object]'')"


section \<open>The API client (services/api.js)\<close>

text \<open>
  Every call of the client is one HTTP request through \<open>apiClient\<close>, whose base
  URL is \<open>API_URL\<close>. A request is its method, its path under the base URL and the
  data given to \<open>post\<close> (\<open>undefined\<close> when \<open>post\<close> gets the path alone).
\<close>

datatype http_method = GET | POST

record request =
  meth :: http_method
  path :: string
  payload :: jv

definition API_URL :: string where
  "API_URL = ''http://localhost:5000/api''"

definition post :: "string \<Rightarrow> jv \<Rightarrow> request" where
  "post p d = \<lparr>meth = POST, path = p, payload = d\<rparr>"

definition api_clearDatabase :: request where
  "api_clearDatabase = post ''/db/clear'' JUndefined"

definition api_syncPlaylists :: "jv \<Rightarrow> jv \<Rightarrow> request" where
  "api_syncPlaylists forceRefresh confirm =
     post ''/sync/playlists''
       (JObj [(''force_refresh'', dflt (JBool False) forceRefresh),
              (''confirm'', dflt (JBool False) confirm)])"

definition api_syncTracks :: "jv \<Rightarrow> jv \<Rightarrow> request" where
  "api_syncTracks forceRefresh confirm =
     post ''/sync/tracks''
       (JObj [(''force_refresh'', dflt (JBool False) forceRefresh),
              (''confirm'', dflt (JBool False) confirm)])"

definition api_syncAll :: "jv \<Rightarrow> jv \<Rightarrow> request" where
  "api_syncAll forceRefresh confirm =
     post ''/sync/all''
       (JObj [(''force_refresh'', dflt (JBool False) forceRefresh),
              (''confirm'', dflt (JBool False) confirm)])"

definition api_syncToMaster :: request where
  "api_syncToMaster = post ''/spotify/sync-to-master'' JUndefined"

definition api_syncUnplaylisted :: request where
  "api_syncUnplaylisted = post ''/spotify/sync-unplaylisted'' JUndefined"

definition api_clearCache :: request where
  "api_clearCache = post ''/cache/clear'' JUndefined"

text \<open>The \<open>confirm\<close> and \<open>force_refresh\<close> fields a request carries.\<close>

definition confirm_of :: "request \<Rightarrow> jv" where
  "confirm_of r = js_get_opt (payload r) ''confirm''"

definition force_refresh_of :: "request \<Rightarrow> jv" where
  "force_refresh_of r = js_get_opt (payload r) ''force_refresh''"


section \<open>The Sync view (components/SyncView.vue): state\<close>

text \<open>
  The reactive state that \<open>setup()\<close> creates: the checkbox \<open>forceRefresh\<close>, the
  \<open>loading\<close> flags, \<open>lastOperation\<close> and the one shared \<open>dialog\<close>. An object literal
  assigned to \<open>lastOperation.value\<close> or \<open>dialog.value\<close> replaces the whole object,
  so a key it leaves out reads as \<open>undefined\<close> afterwards.
\<close>

record loading_flags =
  ld_syncPlaylists :: bool
  ld_syncTracks :: bool
  ld_syncAll :: bool
  ld_clearDb :: bool
  ld_syncMaster :: bool
  ld_syncUnplaylisted :: bool
  ld_clearCache :: bool

record last_operation =
  op_type :: string
  op_success :: bool
  op_stats :: jv
  op_error :: jv

text \<open>
  The functions a dialog holds: \<open>action\<close> is \<open>null\<close>, the closure of
  \<open>confirmDialog\<close> that resolves its promise with \<open>true\<close>, or \<open>clearDatabase\<close>;
  \<open>cancel\<close>, when present, is the closure that resolves the promise with \<open>false\<close>.
\<close>

datatype dialog_action = ActionNull | ResolveTrue | ClearDatabase

datatype dialog_cancel = ResolveFalse

record dialog_box =
  dlg_show :: bool
  dlg_title :: string
  dlg_text :: string
  dlg_details :: jv
  dlg_action :: dialog_action
  dlg_cancel :: "dialog_cancel option"

record view =
  forceRefresh :: bool
  loading :: loading_flags
  lastOperation :: last_operation
  dialog :: dialog_box

definition initial_view :: view where
  "initial_view =
     \<lparr>forceRefresh = False,
      loading = \<lparr>ld_syncPlaylists = False, ld_syncTracks = False, ld_syncAll = False,
                 ld_clearDb = False, ld_syncMaster = False, ld_syncUnplaylisted = False,
                 ld_clearCache = False\<rparr>,
      lastOperation = \<lparr>op_type = [], op_success = False, op_stats = JNull, op_error = JStr []\<rparr>,
      dialog = \<lparr>dlg_show = False, dlg_title = [], dlg_text = [], dlg_details = JUndefined,
                dlg_action = ActionNull, dlg_cancel = None\<rparr>\<rparr>"


section \<open>What a handler does: events\<close>

text \<open>
  A handler is an \<open>async\<close> function. What it does to the world is recorded as a
  trace of events, in the order they happen: a request handed to the API client,
  its promise settling, the dialog being put up, a click on one of the dialog's two
  buttons, a snackbar or console message. \<open>CheckboxSet\<close> is the user changing the
  Force Full Refresh checkbox (\<open>v-model="forceRefresh"\<close>) while the handler is
  suspended at an \<open>await\<close>.

  A run is one call of one handler, from the click on its button to its end. While
  it is suspended, the only things that happen are the reply it waits for, the
  user's use of the dialog and the user's use of the checkbox; a second handler
  started meanwhile, which would share \<open>dialog\<close>, \<open>loading\<close> and \<open>lastOperation\<close>
  with the first, is outside this model.
\<close>

datatype reply = Resolved jv | Rejected jv

datatype dialog_button = ConfirmButton | CancelButton

datatype event =
    Request request
  | Response reply
  | CheckboxSet bool
  | DialogShown string string jv
  | Clicked dialog_button
  | Snackbar string string
  | ConsoleError string

text \<open>
  How a stretch of code ends: it runs to its end, it throws (a TypeError of the
  engine, or the error object a rejected request carries), or it waits for a
  promise that never settles.
\<close>

datatype thrown = TypeError | Failure jv

datatype flow = Done | Threw thrown | Pending

type_synonym step = "flow \<times> view \<times> event list"

text \<open>
  A handler's run: its trace, the state it leaves, and whether the \<open>async\<close>
  function returned, is still suspended, or failed with an uncaught error.
\<close>

datatype status = Returned | Suspended | Failed

record run =
  trace :: "event list"
  final :: view
  status :: status

text \<open>
  What the code takes from outside the repository: Vue's \<open>getCurrentInstance()\<close>
  (\<open>null\<close>, or an instance whose \<open>proxy\<close> has a \<open>$showSnackbar\<close> or not) and the
  \<open>message\<close> of the engine's TypeError.
\<close>

datatype vue_instance = NoInstance | Instance bool

record runtime =
  currentInstance :: vue_instance
  type_error_message :: jv

text \<open>The requests of a trace, in order.\<close>

fun requests_of :: "event list \<Rightarrow> request list" where
  "requests_of [] = []"
| "requests_of (Request r # es) = r # requests_of es"
| "requests_of (e # es) = requests_of es"

text \<open>The dialogs of a trace, in order: title, text and details of each.\<close>

fun dialogs_of :: "event list \<Rightarrow> (string \<times> string \<times> jv) list" where
  "dialogs_of [] = []"
| "dialogs_of (DialogShown t m d # es) = (t, m, d) # dialogs_of es"
| "dialogs_of (e # es) = dialogs_of es"

text \<open>The clicks on the dialog's buttons, in order.\<close>

fun clicks_of :: "event list \<Rightarrow> dialog_button list" where
  "clicks_of [] = []"
| "clicks_of (Clicked b # es) = b # clicks_of es"
| "clicks_of (e # es) = clicks_of es"


section \<open>Helpers of the view\<close>

text \<open>\<open>showSnackbar\<close> (lines 180-187). Destructuring \<open>null\<close> throws.\<close>

definition showSnackbar :: "runtime \<Rightarrow> string \<Rightarrow> string \<Rightarrow> view \<Rightarrow> event list \<Rightarrow> step" where
  "showSnackbar rt text color st evs =
     (case currentInstance rt of
        NoInstance \<Rightarrow> (Threw TypeError, st, evs)
      | Instance has \<Rightarrow>
          if has then (Done, st, evs @ [Snackbar text color])
          else (Done, st, evs @ [ConsoleError ''Snackbar function not available'']))"

text \<open>
  The dialog's buttons (template, lines 139-141). Cancel:
  \<open>dialog.cancel ? dialog.cancel() : dialog.show = false\<close>; Confirm: \<open>dialog.action\<close>.
  Each closure of \<open>confirmDialog\<close> hides the dialog and resolves the promise. What a
  click sets off is returned with the new state.
\<close>

datatype effect = Resolve bool | CallClearDatabase | NoEffect

definition hide_dialog :: "view \<Rightarrow> view" where
  "hide_dialog st = st\<lparr>dialog := (dialog st)\<lparr>dlg_show := False\<rparr>\<rparr>"

definition click_cancel :: "view \<Rightarrow> view \<times> effect" where
  "click_cancel st =
     (case dlg_cancel (dialog st) of
        Some ResolveFalse \<Rightarrow> (hide_dialog st, Resolve False)
      | None \<Rightarrow> (hide_dialog st, NoEffect))"

definition click_confirm :: "view \<Rightarrow> view \<times> effect" where
  "click_confirm st =
     (case dlg_action (dialog st) of
        ResolveTrue \<Rightarrow> (hide_dialog st, Resolve True)
      | ClearDatabase \<Rightarrow> (st, CallClearDatabase)
      | ActionNull \<Rightarrow> (st, NoEffect))"

definition click_button :: "dialog_button \<Rightarrow> view \<Rightarrow> view \<times> effect" where
  "click_button b st = (case b of ConfirmButton \<Rightarrow> click_confirm st | CancelButton \<Rightarrow> click_cancel st)"

text \<open>
  \<open>confirmDialog\<close> (lines 236-253) together with the \<open>await\<close> on its promise: the
  dialog is put up, and the promise settles with the button the user clicks.
  \<open>click = None\<close> is the user who clicks neither button: the promise never settles.
\<close>

definition confirmDialog ::
  "string \<Rightarrow> string \<Rightarrow> jv \<Rightarrow> dialog_button option \<Rightarrow> view \<Rightarrow> event list
     \<Rightarrow> bool option \<times> view \<times> event list" where
  "confirmDialog title message details click st evs =
     (let st1 = st\<lparr>dialog := \<lparr>dlg_show = True, dlg_title = title, dlg_text = message,
                               dlg_details = details, dlg_action = ResolveTrue,
                               dlg_cancel = Some ResolveFalse\<rparr>\<rparr>;
          evs1 = evs @ [DialogShown title message details]
      in case click of
           None \<Rightarrow> (None, st1, evs1)
         | Some b \<Rightarrow>
             (case click_button b st1 of
                (st2, Resolve r) \<Rightarrow> (Some r, st2, evs1 @ [Clicked b])
              | (st2, _) \<Rightarrow> (None, st2, evs1 @ [Clicked b])))"

text \<open>
  The environment of one run of a sync handler: how the first request settles,
  whether the user changes the checkbox while that request is in flight (\<open>Some b\<close>:
  changed to \<open>b\<close>), which dialog button the user clicks, and how the second request
  settles.
\<close>

record sync_env =
  analyze_reply :: reply
  checkbox_edit :: "bool option"
  click :: "dialog_button option"
  commit_reply :: reply

definition edit_checkbox :: "bool option \<Rightarrow> view \<Rightarrow> event list \<Rightarrow> view \<times> event list" where
  "edit_checkbox e st evs =
     (case e of None \<Rightarrow> (st, evs) | Some b \<Rightarrow> (st\<lparr>forceRefresh := b\<rparr>, evs @ [CheckboxSet b]))"

text \<open>The \<open>finally\<close> of a sync handler, after its empty \<open>catch\<close>.\<close>

definition finish_sync :: "(view \<Rightarrow> view) \<Rightarrow> step \<Rightarrow> run" where
  "finish_sync reset s =
     (case s of
        (Pending, st, evs) \<Rightarrow> \<lparr>trace = evs, final = st, status = Suspended\<rparr>
      | (_, st, evs) \<Rightarrow> \<lparr>trace = evs, final = reset st, status = Returned\<rparr>)"


section \<open>The three sync handlers\<close>

subsection \<open>\<open>syncPlaylists\<close> (lines 189-233)\<close>

text \<open>
  The text and the details of the confirmation dialog (lines 200-204), from
  \<open>response.data.analysis\<close>; \<open>None\<close> when reading the analysis throws.
\<close>

definition syncPlaylists_prompt :: "jv \<Rightarrow> (string \<times> jv) option" where
  "syncPlaylists_prompt analysis =
     Option.bind (js_get analysis ''added'') (\<lambda>added.
     Option.bind (js_get analysis ''updated'') (\<lambda>updated.
     Option.bind (to_str added) (\<lambda>added_text.
     Option.bind (to_str updated) (\<lambda>updated_text.
       Some (''Found '' @ added_text @ '' playlists to add and '' @ updated_text
               @ '' to update.'',
             analysis)))))"

text \<open>After the user confirmed (lines 211-218).\<close>

definition syncPlaylists_confirmed :: "runtime \<Rightarrow> sync_env \<Rightarrow> view \<Rightarrow> event list \<Rightarrow> step" where
  "syncPlaylists_confirmed rt env st evs =
     (let evs1 = evs @ [Request (api_syncPlaylists (JBool (forceRefresh st)) (JBool True)),
                        Response (commit_reply env)]
      in case commit_reply env of
           Rejected e \<Rightarrow> (Threw (Failure e), st, evs1)
         | Resolved d \<Rightarrow>
             (case js_get d ''stats'' of
                None \<Rightarrow> (Threw TypeError, st, evs1)
              | Some stats \<Rightarrow>
                  showSnackbar rt ''Playlists synced successfully'' ''success''
                    (st\<lparr>lastOperation := \<lparr>op_type = ''Sync Playlists'', op_success = True,
                                           op_stats = stats, op_error = JUndefined\<rparr>\<rparr>)
                    evs1))"

definition syncPlaylists :: "runtime \<Rightarrow> sync_env \<Rightarrow> view \<Rightarrow> run" where
  "syncPlaylists rt env st0 =
     (let st = st0\<lparr>loading := (loading st0)\<lparr>ld_syncPlaylists := True\<rparr>\<rparr>;
          evs = [Request (api_syncPlaylists (JBool (forceRefresh st)) (JBool False))];
          (st1, evs1) = edit_checkbox (checkbox_edit env) st evs;
          evs2 = evs1 @ [Response (analyze_reply env)]
      in finish_sync (\<lambda>s. s\<lparr>loading := (loading s)\<lparr>ld_syncPlaylists := False\<rparr>\<rparr>)
           (case analyze_reply env of
              Rejected e \<Rightarrow> (Threw (Failure e), st1, evs2)
            | Resolved d \<Rightarrow>
                (case js_get d ''needs_confirmation'' of
                   None \<Rightarrow> (Threw TypeError, st1, evs2)
                 | Some needs_confirmation \<Rightarrow>
                     if truthy needs_confirmation then
                       (case Option.bind (js_get d ''analysis'') syncPlaylists_prompt of
                          None \<Rightarrow> (Threw TypeError, st1, evs2)
                        | Some (message, details) \<Rightarrow>
                            (case confirmDialog ''Confirm Playlist Sync'' message details
                                    (click env) st1 evs2 of
                               (None, st2, evs3) \<Rightarrow> (Pending, st2, evs3)
                             | (Some confirmResult, st2, evs3) \<Rightarrow>
                                 if \<not> confirmResult then
                                   (Done,
                                    st2\<lparr>loading := (loading st2)\<lparr>ld_syncPlaylists := False\<rparr>\<rparr>,
                                    evs3)
                                 else syncPlaylists_confirmed rt env st2 evs3))
                     else
                       (case js_get d ''stats'' of
                          None \<Rightarrow> (Threw TypeError, st1, evs2)
                        | Some stats \<Rightarrow>
                            showSnackbar rt ''Playlists synced successfully'' ''success''
                              (st1\<lparr>lastOperation := \<lparr>op_type = ''Sync Playlists'',
                                     op_success = True, op_stats = stats,
                                     op_error = JUndefined\<rparr>\<rparr>)
                              evs2))))"


subsection \<open>\<open>syncMasterTracks\<close> (lines 255-306)\<close>

text \<open>
  One added track as a line of text (lines 266-268, 319-321):
  \<open>`${track.artists} - ${track.title} (${track.album})`\<close>.
\<close>

definition format_track :: "jv \<Rightarrow> string option" where
  "format_track track =
     Option.bind (js_get track ''artists'') (\<lambda>artists.
     Option.bind (js_get track ''title'') (\<lambda>title.
     Option.bind (js_get track ''album'') (\<lambda>album.
     Option.bind (to_str artists) (\<lambda>artists_text.
     Option.bind (to_str title) (\<lambda>title_text.
     Option.bind (to_str album) (\<lambda>album_text.
       Some (artists_text @ '' - '' @ title_text @ '' ('' @ album_text @ '')'')))))))"

text \<open>\<open>added.map(track => ...)\<close>: only an array has \<open>map\<close>.\<close>

definition format_tracks :: "jv \<Rightarrow> string list option" where
  "format_tracks added = (case added of JArr tracks \<Rightarrow> those (map format_track tracks) | _ \<Rightarrow> None)"

definition syncMasterTracks_prompt :: "jv \<Rightarrow> (string \<times> jv) option" where
  "syncMasterTracks_prompt analysis =
     Option.bind (js_get analysis ''added'') (\<lambda>added.
     Option.bind (format_tracks added) (\<lambda>addedTracks.
       Some (''Found '' @ show_nat (length addedTracks)
               @ '' tracks to add. Would you like to proceed?'',
             JObj [(''added_tracks'', JArr (map JStr addedTracks))])))"

definition syncMasterTracks_confirmed :: "runtime \<Rightarrow> sync_env \<Rightarrow> view \<Rightarrow> event list \<Rightarrow> step" where
  "syncMasterTracks_confirmed rt env st evs =
     (let evs1 = evs @ [Request (api_syncTracks (JBool (forceRefresh st)) (JBool True)),
                        Response (commit_reply env)]
      in case commit_reply env of
           Rejected e \<Rightarrow> (Threw (Failure e), st, evs1)
         | Resolved d \<Rightarrow>
             (case js_get d ''stats'' of
                None \<Rightarrow> (Threw TypeError, st, evs1)
              | Some stats \<Rightarrow>
                  showSnackbar rt ''Master tracks synced successfully'' ''success''
                    (st\<lparr>lastOperation := \<lparr>op_type = ''Sync Master Tracks'', op_success = True,
                                           op_stats = stats, op_error = JUndefined\<rparr>\<rparr>)
                    evs1))"

definition syncMasterTracks :: "runtime \<Rightarrow> sync_env \<Rightarrow> view \<Rightarrow> run" where
  "syncMasterTracks rt env st0 =
     (let st = st0\<lparr>loading := (loading st0)\<lparr>ld_syncTracks := True\<rparr>\<rparr>;
          evs = [Request (api_syncTracks (JBool (forceRefresh st)) (JBool False))];
          (st1, evs1) = edit_checkbox (checkbox_edit env) st evs;
          evs2 = evs1 @ [Response (analyze_reply env)]
      in finish_sync (\<lambda>s. s\<lparr>loading := (loading s)\<lparr>ld_syncTracks := False\<rparr>\<rparr>)
           (case analyze_reply env of
              Rejected e \<Rightarrow> (Threw (Failure e), st1, evs2)
            | Resolved d \<Rightarrow>
                (case js_get d ''needs_confirmation'' of
                   None \<Rightarrow> (Threw TypeError, st1, evs2)
                 | Some needs_confirmation \<Rightarrow>
                     if truthy needs_confirmation then
                       (case Option.bind (js_get d ''analysis'') syncMasterTracks_prompt of
                          None \<Rightarrow> (Threw TypeError, st1, evs2)
                        | Some (message, details) \<Rightarrow>
                            (case confirmDialog ''Confirm Track Sync'' message details
                                    (click env) st1 evs2 of
                               (None, st2, evs3) \<Rightarrow> (Pending, st2, evs3)
                             | (Some confirmResult, st2, evs3) \<Rightarrow>
                                 if \<not> confirmResult then
                                   (Done,
                                    st2\<lparr>loading := (loading st2)\<lparr>ld_syncTracks := False\<rparr>\<rparr>,
                                    evs3)
                                 else syncMasterTracks_confirmed rt env st2 evs3))
                     else
                       (case js_get d ''stats'' of
                          None \<Rightarrow> (Threw TypeError, st1, evs2)
                        | Some stats \<Rightarrow>
                            showSnackbar rt ''Master tracks synced successfully'' ''success''
                              (st1\<lparr>lastOperation := \<lparr>op_type = ''Sync Master Tracks'',
                                     op_success = True, op_stats = stats,
                                     op_error = JUndefined\<rparr>\<rparr>)
                              evs2))))"


subsection \<open>\<open>syncAll\<close> (lines 308-364)\<close>

text \<open>
  The message is a template literal over three source lines: each line break is a
  newline character followed by the eight spaces that indent the next line.
\<close>

definition syncAll_prompt :: "jv \<Rightarrow> (string \<times> jv) option" where
  "syncAll_prompt analysis =
     Option.bind (js_get analysis ''tracks'') (\<lambda>tracks.
     Option.bind (js_get tracks ''added'') (\<lambda>added.
     Option.bind (format_tracks added) (\<lambda>addedTracks.
     Option.bind (js_get analysis ''playlists'') (\<lambda>playlists.
     Option.bind (js_get playlists ''added'') (\<lambda>p_added.
     Option.bind (js_get playlists ''updated'') (\<lambda>p_updated.
     Option.bind (to_str p_added) (\<lambda>added_text.
     Option.bind (to_str p_updated) (\<lambda>updated_text.
       Some (''Found '' @ added_text @ '' playlists to add, '' @ [CHR 0x0A]
               @ ''        '' @ updated_text @ '' to update, and '' @ [CHR 0x0A]
               @ ''        '' @ show_nat (length addedTracks)
               @ '' tracks to add. Would you like to proceed?'',
             JObj [(''playlists'', playlists),
                   (''tracks'', JObj [(''added_tracks'', JArr (map JStr addedTracks))])])))))))))"

definition syncAll_confirmed :: "runtime \<Rightarrow> sync_env \<Rightarrow> view \<Rightarrow> event list \<Rightarrow> step" where
  "syncAll_confirmed rt env st evs =
     (let evs1 = evs @ [Request (api_syncAll (JBool (forceRefresh st)) (JBool True)),
                        Response (commit_reply env)]
      in case commit_reply env of
           Rejected e \<Rightarrow> (Threw (Failure e), st, evs1)
         | Resolved d \<Rightarrow>
             (case js_get d ''stats'' of
                None \<Rightarrow> (Threw TypeError, st, evs1)
              | Some stats \<Rightarrow>
                  showSnackbar rt ''All sync operations completed successfully'' ''success''
                    (st\<lparr>lastOperation := \<lparr>op_type = ''Sync All'', op_success = True,
                                           op_stats = stats, op_error = JUndefined\<rparr>\<rparr>)
                    evs1))"

definition syncAll :: "runtime \<Rightarrow> sync_env \<Rightarrow> view \<Rightarrow> run" where
  "syncAll rt env st0 =
     (let st = st0\<lparr>loading := (loading st0)\<lparr>ld_syncAll := True\<rparr>\<rparr>;
          evs = [Request (api_syncAll (JBool (forceRefresh st)) (JBool False))];
          (st1, evs1) = edit_checkbox (checkbox_edit env) st evs;
          evs2 = evs1 @ [Response (analyze_reply env)]
      in finish_sync (\<lambda>s. s\<lparr>loading := (loading s)\<lparr>ld_syncAll := False\<rparr>\<rparr>)
           (case analyze_reply env of
              Rejected e \<Rightarrow> (Threw (Failure e), st1, evs2)
            | Resolved d \<Rightarrow>
                (case js_get d ''needs_confirmation'' of
                   None \<Rightarrow> (Threw TypeError, st1, evs2)
                 | Some needs_confirmation \<Rightarrow>
                     if truthy needs_confirmation then
                       (case Option.bind (js_get d ''analysis'') syncAll_prompt of
                          None \<Rightarrow> (Threw TypeError, st1, evs2)
                        | Some (message, details) \<Rightarrow>
                            (case confirmDialog ''Confirm Full Sync'' message details
                                    (click env) st1 evs2 of
                               (None, st2, evs3) \<Rightarrow> (Pending, st2, evs3)
                             | (Some confirmResult, st2, evs3) \<Rightarrow>
                                 if \<not> confirmResult then
                                   (Done,
                                    st2\<lparr>loading := (loading st2)\<lparr>ld_syncAll := False\<rparr>\<rparr>,
                                    evs3)
                                 else syncAll_confirmed rt env st2 evs3))
                     else
                       (case js_get d ''stats'' of
                          None \<Rightarrow> (Threw TypeError, st1, evs2)
                        | Some stats \<Rightarrow>
                            showSnackbar rt ''All sync operations completed successfully''
                              ''success''
                              (st1\<lparr>lastOperation := \<lparr>op_type = ''Sync All'',
                                     op_success = True, op_stats = stats,
                                     op_error = JUndefined\<rparr>\<rparr>)
                              evs2))))"


section \<open>The handlers that make one request\<close>

text \<open>
  The text their \<open>catch\<close> blocks store, \<open>error.response?.data?.error || error.message\<close>,
  for the value that was thrown; \<open>None\<close> when reading it throws in turn.
\<close>

definition error_text :: "runtime \<Rightarrow> thrown \<Rightarrow> jv option" where
  "error_text rt t =
     (let err = (case t of
                   TypeError \<Rightarrow> JObj [(''message'', type_error_message rt)]
                 | Failure e \<Rightarrow> e)
      in Option.bind (js_get err ''response'') (\<lambda>response.
           Some (js_or (js_get_opt (js_get_opt response ''data'') ''error'')
                       (js_get_opt err ''message''))))"

text \<open>
  The end of such a handler: an error thrown out of its \<open>catch\<close> leaves the handler
  after the \<open>finally\<close> has run.
\<close>

definition finish_call :: "(view \<Rightarrow> view) \<Rightarrow> step \<Rightarrow> run" where
  "finish_call reset s =
     (case s of
        (Done, st, evs) \<Rightarrow> \<lparr>trace = evs, final = reset st, status = Returned\<rparr>
      | (Threw t, st, evs) \<Rightarrow> \<lparr>trace = evs, final = reset st, status = Failed\<rparr>
      | (Pending, st, evs) \<Rightarrow> \<lparr>trace = evs, final = st, status = Suspended\<rparr>)"

subsection \<open>\<open>confirmClearDatabase\<close> and \<open>clearDatabase\<close> (lines 366-395)\<close>

definition confirmClearDatabase :: "view \<Rightarrow> event list \<Rightarrow> view \<times> event list" where
  "confirmClearDatabase st evs =
     (st\<lparr>dialog := \<lparr>dlg_show = True, dlg_title = ''Clear Database'',
          dlg_text = ''Are you sure you want to clear all database tables? This action cannot be undone.'',
          dlg_details = JUndefined, dlg_action = ClearDatabase, dlg_cancel = None\<rparr>\<rparr>,
      evs @ [DialogShown ''Clear Database''
               ''Are you sure you want to clear all database tables? This action cannot be undone.''
               JUndefined])"

definition clearDatabase :: "runtime \<Rightarrow> reply \<Rightarrow> view \<Rightarrow> event list \<Rightarrow> run" where
  "clearDatabase rt reply st0 evs0 =
     (let st = st0\<lparr>dialog := (dialog st0)\<lparr>dlg_show := False\<rparr>,
                   loading := (loading st0)\<lparr>ld_clearDb := True\<rparr>\<rparr>;
          evs = evs0 @ [Request api_clearDatabase, Response reply];
          tried =
            (case reply of
               Rejected e \<Rightarrow> (Threw (Failure e), st, evs)
             | Resolved d \<Rightarrow>
                 showSnackbar rt ''Database cleared successfully'' ''success''
                   (st\<lparr>lastOperation := \<lparr>op_type = ''Clear Database'', op_success = True,
                          op_stats = JUndefined, op_error = JUndefined\<rparr>\<rparr>)
                   evs);
          caught =
            (case tried of
               (Threw t, st1, evs1) \<Rightarrow>
                 (case error_text rt t of
                    None \<Rightarrow> (Threw TypeError, st1, evs1)
                  | Some text \<Rightarrow>
                      showSnackbar rt ''Failed to clear database'' ''error''
                        (st1\<lparr>lastOperation := \<lparr>op_type = ''Clear Database'', op_success = False,
                                op_stats = JUndefined, op_error = text\<rparr>\<rparr>)
                        evs1)
             | other \<Rightarrow> other)
      in finish_call (\<lambda>s. s\<lparr>loading := (loading s)\<lparr>ld_clearDb := False\<rparr>\<rparr>) caught)"

text \<open>
  The Clear Database button (line 26) runs \<open>confirmClearDatabase\<close>; \<open>clearDatabase\<close>
  is not returned from \<open>setup()\<close> and runs only as the action of that dialog. One use
  of the button: the dialog is put up, and the user clicks one of its buttons or
  neither.
\<close>

record clear_env =
  clear_click :: "dialog_button option"
  clear_reply :: reply

definition clearDatabase_button :: "runtime \<Rightarrow> clear_env \<Rightarrow> view \<Rightarrow> run" where
  "clearDatabase_button rt env st =
     (let (st1, evs1) = confirmClearDatabase st []
      in case clear_click env of
           None \<Rightarrow> \<lparr>trace = evs1, final = st1, status = Returned\<rparr>
         | Some b \<Rightarrow>
             (case click_button b st1 of
                (st2, CallClearDatabase) \<Rightarrow>
                  clearDatabase rt (clear_reply env) st2 (evs1 @ [Clicked b])
              | (st2, _) \<Rightarrow> \<lparr>trace = evs1 @ [Clicked b], final = st2, status = Returned\<rparr>))"

subsection \<open>\<open>syncToMaster\<close> (lines 397-416)\<close>

definition syncToMaster :: "runtime \<Rightarrow> reply \<Rightarrow> view \<Rightarrow> run" where
  "syncToMaster rt reply st0 =
     (let st = st0\<lparr>loading := (loading st0)\<lparr>ld_syncMaster := True\<rparr>\<rparr>;
          evs = [Request api_syncToMaster, Response reply];
          tried =
            (case reply of
               Rejected e \<Rightarrow> (Threw (Failure e), st, evs)
             | Resolved d \<Rightarrow>
                 showSnackbar rt ''Tracks synced to MASTER playlist successfully'' ''success''
                   (st\<lparr>lastOperation := \<lparr>op_type = ''Sync to MASTER Playlist'',
                          op_success = True, op_stats = JUndefined, op_error = JUndefined\<rparr>\<rparr>)
                   evs);
          caught =
            (case tried of
               (Threw t, st1, evs1) \<Rightarrow>
                 (case error_text rt t of
                    None \<Rightarrow> (Threw TypeError, st1, evs1)
                  | Some text \<Rightarrow>
                      showSnackbar rt ''Failed to sync to MASTER playlist'' ''error''
                        (st1\<lparr>lastOperation := \<lparr>op_type = ''Sync to MASTER Playlist'',
                                op_success = False, op_stats = JUndefined, op_error = text\<rparr>\<rparr>)
                        evs1)
             | other \<Rightarrow> other)
      in finish_call (\<lambda>s. s\<lparr>loading := (loading s)\<lparr>ld_syncMaster := False\<rparr>\<rparr>) caught)"

subsection \<open>\<open>syncUnplaylisted\<close> (lines 418-437)\<close>

definition syncUnplaylisted :: "runtime \<Rightarrow> reply \<Rightarrow> view \<Rightarrow> run" where
  "syncUnplaylisted rt reply st0 =
     (let st = st0\<lparr>loading := (loading st0)\<lparr>ld_syncUnplaylisted := True\<rparr>\<rparr>;
          evs = [Request api_syncUnplaylisted, Response reply];
          tried =
            (case reply of
               Rejected e \<Rightarrow> (Threw (Failure e), st, evs)
             | Resolved d \<Rightarrow>
                 showSnackbar rt ''Unplaylisted tracks synced successfully'' ''success''
                   (st\<lparr>lastOperation := \<lparr>op_type = ''Sync Unplaylisted Tracks'',
                          op_success = True, op_stats = JUndefined, op_error = JUndefined\<rparr>\<rparr>)
                   evs);
          caught =
            (case tried of
               (Threw t, st1, evs1) \<Rightarrow>
                 (case error_text rt t of
                    None \<Rightarrow> (Threw TypeError, st1, evs1)
                  | Some text \<Rightarrow>
                      showSnackbar rt ''Failed to sync unplaylisted tracks'' ''error''
                        (st1\<lparr>lastOperation := \<lparr>op_type = ''Sync Unplaylisted Tracks'',
                                op_success = False, op_stats = JUndefined, op_error = text\<rparr>\<rparr>)
                        evs1)
             | other \<Rightarrow> other)
      in finish_call (\<lambda>s. s\<lparr>loading := (loading s)\<lparr>ld_syncUnplaylisted := False\<rparr>\<rparr>) caught)"

subsection \<open>\<open>clearCache\<close> (lines 439-458)\<close>

definition clearCache :: "runtime \<Rightarrow> reply \<Rightarrow> view \<Rightarrow> run" where
  "clearCache rt reply st0 =
     (let st = st0\<lparr>loading := (loading st0)\<lparr>ld_clearCache := True\<rparr>\<rparr>;
          evs = [Request api_clearCache, Response reply];
          tried =
            (case reply of
               Rejected e \<Rightarrow> (Threw (Failure e), st, evs)
             | Resolved d \<Rightarrow>
                 showSnackbar rt ''Spotify API cache cleared successfully'' ''success''
                   (st\<lparr>lastOperation := \<lparr>op_type = ''Clear Cache'', op_success = True,
                          op_stats = JUndefined, op_error = JUndefined\<rparr>\<rparr>)
                   evs);
          caught =
            (case tried of
               (Threw t, st1, evs1) \<Rightarrow>
                 (case error_text rt t of
                    None \<Rightarrow> (Threw TypeError, st1, evs1)
                  | Some text \<Rightarrow>
                      showSnackbar rt ''Failed to clear cache'' ''error''
                        (st1\<lparr>lastOperation := \<lparr>op_type = ''Clear Cache'', op_success = False,
                                op_stats = JUndefined, op_error = text\<rparr>\<rparr>)
                        evs1)
             | other \<Rightarrow> other)
      in finish_call (\<lambda>s. s\<lparr>loading := (loading s)\<lparr>ld_clearCache := False\<rparr>\<rparr>) caught)"


section \<open>The confirmation dialog as rendered (template, lines 97-144)\<close>

text \<open>
  What the template shows is kept as pieces: literal text and \<open>{{ }}\<close>
  interpolations of values. A details panel is hidden (\<open>NoPanel\<close>) when its
  \<open>v-if\<close> is false; rendering throws (\<open>RenderError\<close>) when a list entry is \<open>null\<close> or
  \<open>undefined\<close>. The lists of a payload are arrays; what Vue's \<open>v-for\<close> does over a
  string or an object is not modelled (\<open>NotModelled\<close>).
\<close>

datatype piece = Lit string | Val jv

datatype panel = NoPanel | Panel "piece list" "piece list list" | RenderError | NotModelled

text \<open>
  One panel: \<open>v-if="dialog.details && dialog.details.KEY && dialog.details.KEY.length > 0"\<close>,
  a heading with the length, and one list item for each entry.
\<close>

definition list_panel :: "jv \<Rightarrow> string \<Rightarrow> string \<Rightarrow> (jv \<Rightarrow> piece list option) \<Rightarrow> panel" where
  "list_panel details key heading item =
     (if \<not> truthy details then NoPanel
      else case js_get details key of
             None \<Rightarrow> NoPanel
           | Some l \<Rightarrow>
               (case l of
                  JArr xs \<Rightarrow>
                    if xs = [] then NoPanel
                    else (case those (map item xs) of
                            None \<Rightarrow> RenderError
                          | Some items \<Rightarrow>
                              Panel [Lit heading, Val (JNum (int (length xs))), Lit '')''] items)
                | JStr s \<Rightarrow> if s = [] then NoPanel else NotModelled
                | JObj kvs \<Rightarrow> NotModelled
                | _ \<Rightarrow> NoPanel))"

text \<open>The arrow of line 129, U+2192, as its three UTF-8 bytes.\<close>

definition arrow :: string where
  "arrow = [CHR 0xE2, CHR 0x86, CHR 0x92]"

text \<open>Line 112: \<open>{{ playlist.name }}\<close>.\<close>

definition to_add_item :: "jv \<Rightarrow> piece list option" where
  "to_add_item playlist = Option.bind (js_get playlist ''name'') (\<lambda>name. Some [Val name])"

text \<open>Line 129: \<open>{{ playlist.old_name }} \<rightarrow> {{ playlist.name }}\<close>.\<close>

definition to_update_item :: "jv \<Rightarrow> piece list option" where
  "to_update_item playlist =
     Option.bind (js_get playlist ''old_name'') (\<lambda>old_name.
     Option.bind (js_get playlist ''name'') (\<lambda>name.
       Some [Val old_name, Lit ('' '' @ arrow @ '' ''), Val name]))"

record dialog_render =
  shown_title :: string
  shown_text :: string
  to_add_panel :: panel
  to_update_panel :: panel

definition render_dialog :: "dialog_box \<Rightarrow> dialog_render option" where
  "render_dialog dlg =
     (if dlg_show dlg then
        Some \<lparr>shown_title = dlg_title dlg, shown_text = dlg_text dlg,
              to_add_panel = list_panel (dlg_details dlg) ''to_add'' ''Playlists to Add ('' to_add_item,
              to_update_panel =
                list_panel (dlg_details dlg) ''to_update'' ''Playlists to Update ('' to_update_item\<rparr>
      else None)"


section \<open>The Validation view (components/ValidationView.vue): \<open>calculatePercentage\<close>\<close>

subsection \<open>Arguments\<close>

text \<open>
  The values the function can be called with. \<open>ArgObject\<close> is any array or object.
  Conversion to a number is modelled for \<open>undefined\<close>, \<open>null\<close>, booleans, numbers
  and the empty string; for the other strings and for objects it is not
  (\<open>None\<close>).
\<close>

datatype js_arg =
    ArgUndefined
  | ArgNull
  | ArgBool bool
  | ArgNumber double
  | ArgString string
  | ArgObject

fun arg_truthy :: "js_arg \<Rightarrow> bool" where
  "arg_truthy ArgUndefined = False"
| "arg_truthy ArgNull = False"
| "arg_truthy (ArgBool b) = b"
| "arg_truthy (ArgNumber NaN) = False"
| "arg_truthy (ArgNumber (Infty s)) = True"
| "arg_truthy (ArgNumber (Fin s m)) = (m \<noteq> 0)"
| "arg_truthy (ArgString s) = (s \<noteq> [])"
| "arg_truthy ArgObject = True"

fun to_number :: "js_arg \<Rightarrow> double option" where
  "to_number ArgUndefined = Some NaN"
| "to_number ArgNull = Some (Fin False 0)"
| "to_number (ArgBool b) = Some (Fin False (if b then 1 else 0))"
| "to_number (ArgNumber x) = Some x"
| "to_number (ArgString s) = (if s = [] then Some (Fin False 0) else None)"
| "to_number ArgObject = None"

subsection \<open>\<open>calculatePercentage\<close> (lines 144-147)\<close>

definition calculatePercentage :: "js_arg \<Rightarrow> js_arg \<Rightarrow> double option" where
  "calculatePercentage part total' =
     (if \<not> arg_truthy total' then Some (Fin False 0)
      else case (to_number part, to_number total') of
             (Some p, Some t) \<Rightarrow> Some (math_round (js_times (js_divide p t) (Fin False 100)))
           | _ \<Rightarrow> None)"


section \<open>The common shape of the three sync handlers\<close>

text \<open>
  \<open>syncPlaylists\<close>, \<open>syncMasterTracks\<close> and \<open>syncAll\<close> are the same code up to the API
  call, the way the dialog is filled, three strings and the loading flag.
  \<open>sync_handler\<close> is that code with those six as parameters; each handler is proved
  equal to its instance below, and the properties of the three are proved once.
\<close>

definition sync_confirmed ::
  "(jv \<Rightarrow> jv \<Rightarrow> request) \<Rightarrow> string \<Rightarrow> string \<Rightarrow> runtime \<Rightarrow> sync_env \<Rightarrow> view \<Rightarrow> event list \<Rightarrow> step" where
  "sync_confirmed api label done rt env st evs =
     (let evs1 = evs @ [Request (api (JBool (forceRefresh st)) (JBool True)),
                        Response (commit_reply env)]
      in case commit_reply env of
           Rejected e \<Rightarrow> (Threw (Failure e), st, evs1)
         | Resolved d \<Rightarrow>
             (case js_get d ''stats'' of
                None \<Rightarrow> (Threw TypeError, st, evs1)
              | Some stats \<Rightarrow>
                  showSnackbar rt done ''success''
                    (st\<lparr>lastOperation := \<lparr>op_type = label, op_success = True,
                                           op_stats = stats, op_error = JUndefined\<rparr>\<rparr>)
                    evs1))"

definition sync_handler ::
  "(jv \<Rightarrow> jv \<Rightarrow> request) \<Rightarrow> (jv \<Rightarrow> (string \<times> jv) option) \<Rightarrow> string \<Rightarrow> string \<Rightarrow> string
     \<Rightarrow> (bool \<Rightarrow> loading_flags \<Rightarrow> loading_flags) \<Rightarrow> runtime \<Rightarrow> sync_env \<Rightarrow> view \<Rightarrow> run" where
  "sync_handler api prompt title label done busy rt env st0 =
     (let st = st0\<lparr>loading := busy True (loading st0)\<rparr>;
          evs = [Request (api (JBool (forceRefresh st)) (JBool False))];
          (st1, evs1) = edit_checkbox (checkbox_edit env) st evs;
          evs2 = evs1 @ [Response (analyze_reply env)]
      in finish_sync (\<lambda>s. s\<lparr>loading := busy False (loading s)\<rparr>)
           (case analyze_reply env of
              Rejected e \<Rightarrow> (Threw (Failure e), st1, evs2)
            | Resolved d \<Rightarrow>
                (case js_get d ''needs_confirmation'' of
                   None \<Rightarrow> (Threw TypeError, st1, evs2)
                 | Some needs_confirmation \<Rightarrow>
                     if truthy needs_confirmation then
                       (case Option.bind (js_get d ''analysis'') prompt of
                          None \<Rightarrow> (Threw TypeError, st1, evs2)
                        | Some (message, details) \<Rightarrow>
                            (case confirmDialog title message details
                                    (click env) st1 evs2 of
                               (None, st2, evs3) \<Rightarrow> (Pending, st2, evs3)
                             | (Some confirmResult, st2, evs3) \<Rightarrow>
                                 if \<not> confirmResult then
                                   (Done, st2\<lparr>loading := busy False (loading st2)\<rparr>, evs3)
                                 else sync_confirmed api label done rt env st2 evs3))
                     else
                       (case js_get d ''stats'' of
                          None \<Rightarrow> (Threw TypeError, st1, evs2)
                        | Some stats \<Rightarrow>
                            showSnackbar rt done ''success''
                              (st1\<lparr>lastOperation := \<lparr>op_type = label,
                                     op_success = True, op_stats = stats,
                                     op_error = JUndefined\<rparr>\<rparr>)
                              evs2))))"

text \<open>
  The dialog a reply to the first call leads to: none when the call is rejected,
  when the reply is not marked \<open>needs_confirmation\<close>, or when reading the analysis
  throws.
\<close>

definition prompt_for :: "(jv \<Rightarrow> (string \<times> jv) option) \<Rightarrow> reply \<Rightarrow> (string \<times> jv) option" where
  "prompt_for prompt r =
     (case r of
        Rejected e \<Rightarrow> None
      | Resolved d \<Rightarrow>
          (case js_get d ''needs_confirmation'' of
             None \<Rightarrow> None
           | Some needs_confirmation \<Rightarrow>
               if truthy needs_confirmation then Option.bind (js_get d ''analysis'') prompt
               else None))"

text \<open>The value of the checkbox when the second call reads it.\<close>

definition checkbox_at_commit :: "sync_env \<Rightarrow> view \<Rightarrow> bool" where
  "checkbox_at_commit env st = (case checkbox_edit env of None \<Rightarrow> forceRefresh st | Some b \<Rightarrow> b)"

definition edit_events :: "bool option \<Rightarrow> event list" where
  "edit_events e = (case e of None \<Rightarrow> [] | Some b \<Rightarrow> [CheckboxSet b])"

text \<open>Events among which there is no request, no dialog and no click.\<close>

definition silent :: "event list \<Rightarrow> bool" where
  "silent es = (requests_of es = [] \<and> dialogs_of es = [] \<and> clicks_of es = [])"

text \<open>A payload entry that is a value with properties: not \<open>null\<close>, not \<open>undefined\<close>.\<close>

definition non_nullish :: "jv \<Rightarrow> bool" where
  "non_nullish v = (v \<noteq> JUndefined \<and> v \<noteq> JNull)"


section \<open>Properties of traces\<close>

text \<open>
  The two-call protocol on path \<open>p\<close>: the trace starts with a request that carries
  \<open>confirm = false\<close>; either that is the only request, or its reply is marked
  \<open>needs_confirmation\<close>, the dialog is put up, the user clicks Confirm, and only then
  the one request with \<open>confirm = true\<close> follows.
\<close>

definition analyze_then_commit :: "string \<Rightarrow> event list \<Rightarrow> bool" where
  "analyze_then_commit p tr =
     (\<exists>a rest. tr = Request a # rest \<and> path a = p \<and> confirm_of a = JBool False \<and>
        (requests_of rest = [] \<or>
         (\<exists>pre d t m dt c post.
            rest = pre @ [Response (Resolved d), DialogShown t m dt, Clicked ConfirmButton, Request c] @ post
            \<and> requests_of pre = [] \<and> truthy (js_get_opt d ''needs_confirmation'')
            \<and> path c = p \<and> confirm_of c = JBool True \<and> requests_of post = [])))"

text \<open>Every request of the trace comes after a click on the dialog's Confirm button.\<close>

fun confirmed_first :: "event list \<Rightarrow> bool" where
  "confirmed_first [] = True"
| "confirmed_first (Clicked ConfirmButton # es) = True"
| "confirmed_first (Request r # es) = False"
| "confirmed_first (e # es) = confirmed_first es"


section \<open>Example inputs\<close>

text \<open>
  A runtime in which \<open>getCurrentInstance()\<close> is \<open>null\<close>, as it is in an event
  handler, and one in which the snackbar is reachable.
\<close>

definition handler_runtime :: runtime where
  "handler_runtime = \<lparr>currentInstance = NoInstance, type_error_message = JStr ''TypeError''\<rparr>"

definition snackbar_runtime :: runtime where
  "snackbar_runtime = \<lparr>currentInstance = Instance True, type_error_message = JStr ''TypeError''\<rparr>"

text \<open>
  The playlist analysis of the spec's scenario: local \<open>{A(id=1, name="Old")}\<close>,
  remote \<open>{A(id=1, name="New"), B(id=2, name="Fresh")}\<close>.
\<close>

definition scenario_playlists :: jv where
  "scenario_playlists =
     JObj [(''added'', JNum 1), (''updated'', JNum 1),
           (''to_add'', JArr [JObj [(''id'', JNum 2), (''name'', JStr ''Fresh'')]]),
           (''to_update'',
            JArr [JObj [(''id'', JNum 1), (''old_name'', JStr ''Old''), (''name'', JStr ''New'')]])]"

definition scenario_tracks :: jv where
  "scenario_tracks =
     JObj [(''added'',
            JArr [JObj [(''id'', JStr ''t1''), (''title'', JStr ''Song''),
                        (''artists'', JStr ''Band''), (''album'', JStr ''Record'')]])]"

definition needs_confirmation_reply :: "jv \<Rightarrow> reply" where
  "needs_confirmation_reply analysis =
     Resolved (JObj [(''needs_confirmation'', JBool True), (''analysis'', analysis)])"

definition stats_reply :: reply where
  "stats_reply =
     Resolved (JObj [(''success'', JBool True),
                     (''stats'', JObj [(''added'', JNum 1), (''updated'', JNum 1),
                                       (''unchanged'', JNum 0)])])"

text \<open>Three users at the Sync Playlists button, on the scenario's analysis: one who declines,
  one who confirms, and one who switches the checkbox on while the first request is in
  flight and then confirms.\<close>

definition declining_env :: sync_env where
  "declining_env =
     \<lparr>analyze_reply = needs_confirmation_reply scenario_playlists, checkbox_edit = None,
      click = Some CancelButton, commit_reply = stats_reply\<rparr>"

definition toggling_env :: sync_env where
  "toggling_env =
     \<lparr>analyze_reply = needs_confirmation_reply scenario_playlists, checkbox_edit = Some True,
      click = Some ConfirmButton, commit_reply = stats_reply\<rparr>"

definition confirming_env :: sync_env where
  "confirming_env =
     \<lparr>analyze_reply = needs_confirmation_reply scenario_playlists, checkbox_edit = None,
      click = Some ConfirmButton, commit_reply = stats_reply\<rparr>"

text \<open>
  A user who looks at the dialog without answering, and the analysis of a full sync
  made of the two scenarios.
\<close>

definition viewing_env :: "jv \<Rightarrow> sync_env" where
  "viewing_env analysis =
     \<lparr>analyze_reply = needs_confirmation_reply analysis, checkbox_edit = None,
      click = None, commit_reply = stats_reply\<rparr>"

definition scenario_all :: jv where
  "scenario_all = JObj [(''playlists'', scenario_playlists), (''tracks'', scenario_tracks)]"

text \<open>A user who confirms a full sync.\<close>

definition full_sync_env :: sync_env where
  "full_sync_env =
     \<lparr>analyze_reply = needs_confirmation_reply scenario_all, checkbox_edit = None,
      click = Some ConfirmButton, commit_reply = stats_reply\<rparr>"

text \<open>A full sync that finds nothing to confirm: the first reply already carries the stats.\<close>

definition nothing_to_confirm_env :: sync_env where
  "nothing_to_confirm_env =
     \<lparr>analyze_reply = stats_reply, checkbox_edit = None,
      click = Some ConfirmButton, commit_reply = stats_reply\<rparr>"


section \<open>Lemmas\<close>

subsection \<open>Projections of traces\<close>

lemma requests_of_append [simp]: "requests_of (xs @ ys) = requests_of xs @ requests_of ys"
  by (induction xs rule: requests_of.induct) simp_all

lemma dialogs_of_append [simp]: "dialogs_of (xs @ ys) = dialogs_of xs @ dialogs_of ys"
  by (induction xs rule: dialogs_of.induct) simp_all

lemma clicks_of_append [simp]: "clicks_of (xs @ ys) = clicks_of xs @ clicks_of ys"
  by (induction xs rule: clicks_of.induct) simp_all

lemma silent_Nil [simp]: "silent []"
  by (simp add: silent_def)

lemma silent_edit_events [simp]: "silent (edit_events e)"
  by (cases e) (simp_all add: edit_events_def silent_def)

lemma silent_Response [simp]: "silent (Response r # es) = silent es"
  by (simp add: silent_def)

lemma silentD:
  assumes "silent es"
  shows "requests_of es = []" and "dialogs_of es = []" and "clicks_of es = []"
  using assms by (simp_all add: silent_def)

subsection \<open>The helpers\<close>

lemma showSnackbar_shape:
  "\<exists>f tail. showSnackbar rt t c st evs = (f, st, evs @ tail) \<and> f \<noteq> Pending \<and> silent tail"
  by (cases "currentInstance rt") (auto simp: showSnackbar_def silent_def)

lemma checkbox_at_commit_loading [simp]:
  "checkbox_at_commit env (st\<lparr>loading := l\<rparr>) = checkbox_at_commit env st"
  by (simp add: checkbox_at_commit_def split: option.splits)

lemma edit_checkbox_eq:
  "edit_checkbox (checkbox_edit env) st evs =
     (st\<lparr>forceRefresh := checkbox_at_commit env st\<rparr>, evs @ edit_events (checkbox_edit env))"
  by (cases "checkbox_edit env") (simp_all add: edit_checkbox_def checkbox_at_commit_def edit_events_def)

lemma js_get_non_nullish: "non_nullish v \<Longrightarrow> js_get v k = Some (js_get_opt v k)"
  by (cases v) (simp_all add: non_nullish_def js_get_opt_def)

lemma js_get_Some_non_nullish: "js_get v k = Some x \<Longrightarrow> non_nullish v"
  by (cases v) (simp_all add: non_nullish_def)

lemma truthy_js_get_opt:
  assumes "truthy (js_get_opt d k)"
  shows "js_get d k = Some (js_get_opt d k)"
  using assms by (cases d) (simp_all add: js_get_opt_def)

subsection \<open>The three handlers are instances of the common shape\<close>

lemma syncPlaylists_handler:
  "syncPlaylists = sync_handler api_syncPlaylists syncPlaylists_prompt ''Confirm Playlist Sync''
      ''Sync Playlists'' ''Playlists synced successfully'' (\<lambda>b l. l\<lparr>ld_syncPlaylists := b\<rparr>)"
  unfolding syncPlaylists_def sync_handler_def syncPlaylists_confirmed_def sync_confirmed_def
  by (intro ext) (rule refl)

lemma syncMasterTracks_handler:
  "syncMasterTracks = sync_handler api_syncTracks syncMasterTracks_prompt ''Confirm Track Sync''
      ''Sync Master Tracks'' ''Master tracks synced successfully'' (\<lambda>b l. l\<lparr>ld_syncTracks := b\<rparr>)"
  unfolding syncMasterTracks_def sync_handler_def syncMasterTracks_confirmed_def sync_confirmed_def
  by (intro ext) (rule refl)

lemma syncAll_handler:
  "syncAll = sync_handler api_syncAll syncAll_prompt ''Confirm Full Sync''
      ''Sync All'' ''All sync operations completed successfully'' (\<lambda>b l. l\<lparr>ld_syncAll := b\<rparr>)"
  unfolding syncAll_def sync_handler_def syncAll_confirmed_def sync_confirmed_def
  by (intro ext) (rule refl)

subsection \<open>The runs of the common shape, case by case\<close>

lemma prompt_for_SomeD:
  assumes "prompt_for prompt r = Some md"
  obtains d0 nc where "r = Resolved d0" "js_get d0 ''needs_confirmation'' = Some nc" "truthy nc"
    "Option.bind (js_get d0 ''analysis'') prompt = Some md"
  using assms by (auto simp: prompt_for_def split: reply.splits option.splits if_splits)

lemma sync_confirmed_shape:
  "\<exists>f st' tail. sync_confirmed api label done rt env st evs =
       (f, st', evs @ [Request (api (JBool (forceRefresh st)) (JBool True)), Response (commit_reply env)] @ tail)
     \<and> f \<noteq> Pending \<and> silent tail
     \<and> lastOperation st' =
         (case commit_reply env of
            Rejected e \<Rightarrow> lastOperation st
          | Resolved d \<Rightarrow>
              (case js_get d ''stats'' of
                 None \<Rightarrow> lastOperation st
               | Some stats \<Rightarrow> \<lparr>op_type = label, op_success = True, op_stats = stats,
                                op_error = JUndefined\<rparr>))"
proof (cases "commit_reply env")
  case (Rejected e)
  then show ?thesis by (simp add: sync_confirmed_def)
next
  case (Resolved d)
  show ?thesis
  proof (cases "js_get d ''stats''")
    case None
    with Resolved show ?thesis by (simp add: sync_confirmed_def)
  next
    case (Some stats)
    let ?st = "st\<lparr>lastOperation := \<lparr>op_type = label, op_success = True, op_stats = stats,
                                     op_error = JUndefined\<rparr>\<rparr>"
    let ?evs = "evs @ [Request (api (JBool (forceRefresh st)) (JBool True)), Response (commit_reply env)]"
    obtain f tail where "showSnackbar rt done ''success'' ?st ?evs = (f, ?st, ?evs @ tail)"
      and "f \<noteq> Pending" and "silent tail"
      using showSnackbar_shape by blast
    with Resolved Some show ?thesis by (simp add: sync_confirmed_def)
  qed
qed

lemma sync_handler_no_prompt:
  assumes "prompt_for prompt (analyze_reply env) = None"
  shows "\<exists>tail. trace (sync_handler api prompt title label done busy rt env st0) =
            Request (api (JBool (forceRefresh st0)) (JBool False)) # edit_events (checkbox_edit env)
              @ Response (analyze_reply env) # tail
          \<and> silent tail
          \<and> status (sync_handler api prompt title label done busy rt env st0) = Returned"
proof (cases "analyze_reply env")
  case (Rejected e)
  then show ?thesis
    by (simp add: sync_handler_def finish_sync_def edit_checkbox_eq)
next
  case (Resolved d0)
  show ?thesis
  proof (cases "js_get d0 ''needs_confirmation''")
    case None
    with Resolved show ?thesis
      by (simp add: sync_handler_def finish_sync_def edit_checkbox_eq)
  next
    case (Some nc)
    show ?thesis
    proof (cases "truthy nc")
      case True
      with Resolved Some assms have "Option.bind (js_get d0 ''analysis'') prompt = None"
        by (simp add: prompt_for_def)
      with Resolved Some True show ?thesis
        by (simp add: sync_handler_def finish_sync_def edit_checkbox_eq)
    next
      case False
      show ?thesis
      proof (cases "js_get d0 ''stats''")
        case None
        with Resolved Some False show ?thesis
          by (simp add: sync_handler_def finish_sync_def edit_checkbox_eq)
      next
        case (Some stats)
        let ?st = "st0\<lparr>loading := busy True (loading st0), forceRefresh := checkbox_at_commit env st0,
                       lastOperation := \<lparr>op_type = label, op_success = True, op_stats = stats,
                                         op_error = JUndefined\<rparr>\<rparr>"
        let ?evs = "Request (api (JBool (forceRefresh st0)) (JBool False)) # edit_events (checkbox_edit env)
                      @ [Response (Resolved d0)]"
        obtain f tail where sn: "showSnackbar rt done ''success'' ?st ?evs = (f, ?st, ?evs @ tail)"
          and "f \<noteq> Pending" and "silent tail"
          using showSnackbar_shape by blast
        with Resolved \<open>js_get d0 ''needs_confirmation'' = Some nc\<close> False Some show ?thesis
          by (cases f) (simp_all add: sync_handler_def finish_sync_def edit_checkbox_eq)
      qed
    qed
  qed
qed

lemma sync_handler_malformed:
  assumes "analyze_reply env = Resolved d0" and "js_get d0 ''needs_confirmation'' = Some nc"
    and "truthy nc" and "Option.bind (js_get d0 ''analysis'') prompt = None"
  shows "lastOperation (final (sync_handler api prompt title label done busy rt env st0)) = lastOperation st0
       \<and> loading (final (sync_handler api prompt title label done busy rt env st0))
            = busy False (busy True (loading st0))"
  using assms by (simp add: sync_handler_def finish_sync_def edit_checkbox_eq)

lemma sync_handler_unanswered:
  assumes "prompt_for prompt (analyze_reply env) = Some (m, d)" and "click env = None"
  shows "trace (sync_handler api prompt title label done busy rt env st0) =
            Request (api (JBool (forceRefresh st0)) (JBool False)) # edit_events (checkbox_edit env)
              @ [Response (analyze_reply env), DialogShown title m d]
          \<and> status (sync_handler api prompt title label done busy rt env st0) = Suspended
          \<and> lastOperation (final (sync_handler api prompt title label done busy rt env st0)) = lastOperation st0
          \<and> dialog (final (sync_handler api prompt title label done busy rt env st0))
              = \<lparr>dlg_show = True, dlg_title = title, dlg_text = m, dlg_details = d,
                 dlg_action = ResolveTrue, dlg_cancel = Some ResolveFalse\<rparr>"
proof -
  from assms(1) obtain d0 nc where "analyze_reply env = Resolved d0"
    "js_get d0 ''needs_confirmation'' = Some nc" "truthy nc"
    "Option.bind (js_get d0 ''analysis'') prompt = Some (m, d)"
    by (rule prompt_for_SomeD)
  with assms(2) show ?thesis
    by (simp add: sync_handler_def finish_sync_def edit_checkbox_eq confirmDialog_def)
qed

lemma sync_handler_cancelled:
  assumes "prompt_for prompt (analyze_reply env) = Some (m, d)" and "click env = Some CancelButton"
  shows "trace (sync_handler api prompt title label done busy rt env st0) =
            Request (api (JBool (forceRefresh st0)) (JBool False)) # edit_events (checkbox_edit env)
              @ [Response (analyze_reply env), DialogShown title m d, Clicked CancelButton]
          \<and> status (sync_handler api prompt title label done busy rt env st0) = Returned
          \<and> lastOperation (final (sync_handler api prompt title label done busy rt env st0)) = lastOperation st0
          \<and> loading (final (sync_handler api prompt title label done busy rt env st0))
               = busy False (busy False (busy True (loading st0)))
          \<and> dlg_show (dialog (final (sync_handler api prompt title label done busy rt env st0))) = False"
proof -
  from assms(1) obtain d0 nc where "analyze_reply env = Resolved d0"
    "js_get d0 ''needs_confirmation'' = Some nc" "truthy nc"
    "Option.bind (js_get d0 ''analysis'') prompt = Some (m, d)"
    by (rule prompt_for_SomeD)
  with assms(2) show ?thesis
    by (simp add: sync_handler_def finish_sync_def edit_checkbox_eq confirmDialog_def
        click_button_def click_cancel_def hide_dialog_def)
qed

lemma sync_handler_confirmed:
  assumes "prompt_for prompt (analyze_reply env) = Some (m, d)" and "click env = Some ConfirmButton"
  shows "\<exists>tail. trace (sync_handler api prompt title label done busy rt env st0) =
            Request (api (JBool (forceRefresh st0)) (JBool False)) # edit_events (checkbox_edit env)
              @ [Response (analyze_reply env), DialogShown title m d, Clicked ConfirmButton,
                 Request (api (JBool (checkbox_at_commit env st0)) (JBool True)),
                 Response (commit_reply env)] @ tail
          \<and> silent tail
          \<and> status (sync_handler api prompt title label done busy rt env st0) = Returned
          \<and> lastOperation (final (sync_handler api prompt title label done busy rt env st0)) =
              (case commit_reply env of
                 Rejected e \<Rightarrow> lastOperation st0
               | Resolved d2 \<Rightarrow>
                   (case js_get d2 ''stats'' of
                      None \<Rightarrow> lastOperation st0
                    | Some stats \<Rightarrow> \<lparr>op_type = label, op_success = True, op_stats = stats,
                                     op_error = JUndefined\<rparr>))"
proof -
  from assms(1) obtain d0 nc where a: "analyze_reply env = Resolved d0"
    "js_get d0 ''needs_confirmation'' = Some nc" "truthy nc"
    "Option.bind (js_get d0 ''analysis'') prompt = Some (m, d)"
    by (rule prompt_for_SomeD)
  let ?st = "hide_dialog (st0\<lparr>loading := busy True (loading st0), forceRefresh := checkbox_at_commit env st0,
       dialog := \<lparr>dlg_show = True, dlg_title = title, dlg_text = m, dlg_details = d,
                  dlg_action = ResolveTrue, dlg_cancel = Some ResolveFalse\<rparr>\<rparr>)"
  let ?evs = "Request (api (JBool (forceRefresh st0)) (JBool False)) # edit_events (checkbox_edit env)
              @ [Response (analyze_reply env), DialogShown title m d, Clicked ConfirmButton]"
  obtain f st' tail where c: "sync_confirmed api label done rt env ?st ?evs =
       (f, st', ?evs @ [Request (api (JBool (forceRefresh ?st)) (JBool True)), Response (commit_reply env)] @ tail)"
     and f: "f \<noteq> Pending" and t: "silent tail"
     and l: "lastOperation st' =
         (case commit_reply env of
            Rejected e \<Rightarrow> lastOperation ?st
          | Resolved d \<Rightarrow>
              (case js_get d ''stats'' of
                 None \<Rightarrow> lastOperation ?st
               | Some stats \<Rightarrow> \<lparr>op_type = label, op_success = True, op_stats = stats,
                                op_error = JUndefined\<rparr>))"
    using sync_confirmed_shape[of api label "done" rt env ?st ?evs] by blast
  have fr: "forceRefresh ?st = checkbox_at_commit env st0" and lo: "lastOperation ?st = lastOperation st0"
    by (simp_all add: hide_dialog_def)
  have run: "sync_handler api prompt title label done busy rt env st0 =
      finish_sync (\<lambda>s. s\<lparr>loading := busy False (loading s)\<rparr>) (sync_confirmed api label done rt env ?st ?evs)"
    using a assms(2)
    by (simp add: sync_handler_def edit_checkbox_eq confirmDialog_def click_button_def click_confirm_def)
  from f t l show ?thesis
    unfolding run c fr lo
    by (cases f) (auto simp: finish_sync_def)
qed


lemma sync_handler_cases [case_names no_prompt unanswered cancelled confirmed]:
  fixes api prompt title label done' busy rt env st0
  defines "R \<equiv> sync_handler api prompt title label done' busy rt env st0"
  defines "a \<equiv> api (JBool (forceRefresh st0)) (JBool False)"
  defines "c \<equiv> api (JBool (checkbox_at_commit env st0)) (JBool True)"
  obtains
    tail where "prompt_for prompt (analyze_reply env) = None"
      "trace R = Request a # edit_events (checkbox_edit env) @ Response (analyze_reply env) # tail"
      "silent tail" "status R = Returned"
  | m d where "prompt_for prompt (analyze_reply env) = Some (m, d)" "click env = None"
      "trace R = Request a # edit_events (checkbox_edit env) @ [Response (analyze_reply env), DialogShown title m d]"
      "status R = Suspended" "lastOperation (final R) = lastOperation st0"
  | m d where "prompt_for prompt (analyze_reply env) = Some (m, d)" "click env = Some CancelButton"
      "trace R = Request a # edit_events (checkbox_edit env)
         @ [Response (analyze_reply env), DialogShown title m d, Clicked CancelButton]"
      "status R = Returned" "lastOperation (final R) = lastOperation st0"
      "loading (final R) = busy False (busy False (busy True (loading st0)))"
  | m d tail where "prompt_for prompt (analyze_reply env) = Some (m, d)" "click env = Some ConfirmButton"
      "trace R = Request a # edit_events (checkbox_edit env)
         @ [Response (analyze_reply env), DialogShown title m d, Clicked ConfirmButton,
            Request c, Response (commit_reply env)] @ tail"
      "silent tail" "status R = Returned"
      "lastOperation (final R) =
         (case commit_reply env of
            Rejected e \<Rightarrow> lastOperation st0
          | Resolved d2 \<Rightarrow>
              (case js_get d2 ''stats'' of
                 None \<Rightarrow> lastOperation st0
               | Some stats \<Rightarrow> \<lparr>op_type = label, op_success = True, op_stats = stats,
                                op_error = JUndefined\<rparr>))"
proof (cases "prompt_for prompt (analyze_reply env)")
  case None
  with sync_handler_no_prompt[OF None, of api title label done' busy rt st0] that(1) show ?thesis
    unfolding R_def a_def by blast
next
  case (Some md)
  obtain m d where md: "md = (m, d)" by (cases md)
  note p = Some[unfolded md]
  show ?thesis
  proof (cases "click env")
    case None
    with sync_handler_unanswered[OF p None, of api title label done' busy rt st0] that(2) p show ?thesis
      unfolding R_def a_def by blast
  next
    case (Some b)
    show ?thesis
    proof (cases b)
      case CancelButton
      with Some have cl: "click env = Some CancelButton" by simp
      with sync_handler_cancelled[OF p cl, of api title label done' busy rt st0] that(3) p show ?thesis
        unfolding R_def a_def by blast
    next
      case ConfirmButton
      with Some have cl: "click env = Some ConfirmButton" by simp
      with sync_handler_confirmed[OF p cl, of api title label done' busy rt st0] that(4) p show ?thesis
        unfolding R_def a_def c_def by blast
    qed
  qed
qed

lemma sync_handler_dialogs:
  assumes "prompt_for prompt (analyze_reply env) = Some (m, d)"
  shows "dialogs_of (trace (sync_handler api prompt title label done busy rt env st0)) = [(title, m, d)]"
  using assms
  by (cases rule: sync_handler_cases[of prompt env api title label "done" busy rt st0])
    (simp_all add: silentD)

lemma sync_handler_analyze_then_commit:
  assumes path: "\<And>x y. path (api x y) = p"
    and conf: "\<And>x b. confirm_of (api x (JBool b)) = JBool b"
  shows "analyze_then_commit p (trace (sync_handler api prompt title label done busy rt env st0))"
proof (cases rule: sync_handler_cases[of prompt env api title label "done" busy rt st0])
  case (no_prompt tail)
  then show ?thesis
    by (simp add: analyze_then_commit_def path conf silentD)
next
  case (unanswered m d)
  then show ?thesis
    by (simp add: analyze_then_commit_def path conf silentD)
next
  case (cancelled m d)
  then show ?thesis
    by (simp add: analyze_then_commit_def path conf silentD)
next
  case (confirmed m d tail)
  from confirmed(1) obtain d0 nc where r: "analyze_reply env = Resolved d0"
    and nc: "js_get d0 ''needs_confirmation'' = Some nc" "truthy nc"
    by (rule prompt_for_SomeD)
  let ?a = "api (JBool (forceRefresh st0)) (JBool False)"
  let ?c = "api (JBool (checkbox_at_commit env st0)) (JBool True)"
  have "trace (sync_handler api prompt title label done busy rt env st0) =
      Request ?a # (edit_events (checkbox_edit env)
        @ [Response (Resolved d0), DialogShown title m d, Clicked ConfirmButton, Request ?c]
        @ (Response (commit_reply env) # tail))"
    using confirmed(3) r by simp
  moreover have "requests_of (edit_events (checkbox_edit env)) = []"
    and "requests_of (Response (commit_reply env) # tail) = []"
    using confirmed(4) by (simp_all add: silentD)
  moreover have "truthy (js_get_opt d0 ''needs_confirmation'')"
    using nc by (simp add: js_get_opt_def)
  ultimately show ?thesis
    unfolding analyze_then_commit_def using path conf by blast
qed

lemma api_paths [simp]:
  "path (api_syncPlaylists x y) = ''/sync/playlists''"
  "path (api_syncTracks x y) = ''/sync/tracks''"
  "path (api_syncAll x y) = ''/sync/all''"
  by (simp_all add: api_syncPlaylists_def api_syncTracks_def api_syncAll_def post_def)

lemma api_confirm [simp]:
  "confirm_of (api_syncPlaylists x (JBool b)) = JBool b"
  "confirm_of (api_syncTracks x (JBool b)) = JBool b"
  "confirm_of (api_syncAll x (JBool b)) = JBool b"
  by (simp_all add: api_syncPlaylists_def api_syncTracks_def api_syncAll_def post_def confirm_of_def
      js_get_opt_def dflt_def)

text \<open>
  C1. In every run of \<open>syncPlaylists\<close>, \<open>syncMasterTracks\<close> and \<open>syncAll\<close> the first
  event is the request with \<open>confirm = false\<close>. A request with \<open>confirm = true\<close> is
  issued at most once, and only after the first request's reply has arrived marked
  \<open>needs_confirmation\<close>, the dialog has been shown and the user has clicked Confirm:
  the commit call never precedes its own analysis call. (What the server does on the
  first call is not part of the front end: its reply is any reply.)
\<close>

theorem sync_commit_follows_analysis:
  "analyze_then_commit ''/sync/playlists'' (trace (syncPlaylists rt env st))
   \<and> analyze_then_commit ''/sync/tracks'' (trace (syncMasterTracks rt env st))
   \<and> analyze_then_commit ''/sync/all'' (trace (syncAll rt env st))"
  unfolding syncPlaylists_handler syncMasterTracks_handler syncAll_handler
  by (intro conjI sync_handler_analyze_then_commit) simp_all



lemma sync_handler_declined:
  assumes r: "analyze_reply env = Resolved d0"
    and nc: "truthy (js_get_opt d0 ''needs_confirmation'')"
    and cl: "click env \<noteq> Some ConfirmButton"
  shows "requests_of (trace (sync_handler api prompt title label done busy rt env st0))
           = [api (JBool (forceRefresh st0)) (JBool False)]
       \<and> lastOperation (final (sync_handler api prompt title label done busy rt env st0)) = lastOperation st0
       \<and> (click env = Some CancelButton \<longrightarrow>
            status (sync_handler api prompt title label done busy rt env st0) = Returned
            \<and> (\<exists>l. loading (final (sync_handler api prompt title label done busy rt env st0))
                       = busy False l))"
proof (cases rule: sync_handler_cases[of prompt env api title label "done" busy rt st0])
  case (no_prompt tail)
  from nc have g: "js_get d0 ''needs_confirmation'' = Some (js_get_opt d0 ''needs_confirmation'')"
    by (rule truthy_js_get_opt)
  with no_prompt(1) r nc have "Option.bind (js_get d0 ''analysis'') prompt = None"
    by (simp add: prompt_for_def)
  from sync_handler_malformed[OF r g nc this, of api title label "done" busy rt st0] no_prompt
  show ?thesis by (auto simp: silentD)
next
  case (unanswered m d)
  then show ?thesis by (simp add: silentD)
next
  case (cancelled m d)
  then show ?thesis by (auto simp: silentD)
next
  case (confirmed m d tail)
  with cl show ?thesis by simp
qed

text \<open>
  C3. When the reply to the first call is marked \<open>needs_confirmation\<close> and the user
  does not confirm (clicks Cancel, or never answers), the request with
  \<open>confirm = false\<close> is the only request of the run: no request follows the refusal,
  so none with \<open>confirm = true\<close> is ever sent, and \<open>lastOperation\<close> is left as it was.
  After a click on Cancel the handler has returned and its loading flag is off.
\<close>

theorem declined_sync_sends_nothing:
  assumes "analyze_reply env = Resolved d"
    and "truthy (js_get_opt d ''needs_confirmation'')"
    and "click env \<noteq> Some ConfirmButton"
  shows "requests_of (trace (syncPlaylists rt env st))
           = [api_syncPlaylists (JBool (forceRefresh st)) (JBool False)]
       \<and> requests_of (trace (syncMasterTracks rt env st))
           = [api_syncTracks (JBool (forceRefresh st)) (JBool False)]
       \<and> requests_of (trace (syncAll rt env st))
           = [api_syncAll (JBool (forceRefresh st)) (JBool False)]
       \<and> lastOperation (final (syncPlaylists rt env st)) = lastOperation st
       \<and> lastOperation (final (syncMasterTracks rt env st)) = lastOperation st
       \<and> lastOperation (final (syncAll rt env st)) = lastOperation st
       \<and> (click env = Some CancelButton \<longrightarrow>
            status (syncPlaylists rt env st) = Returned
            \<and> status (syncMasterTracks rt env st) = Returned
            \<and> status (syncAll rt env st) = Returned
            \<and> \<not> ld_syncPlaylists (loading (final (syncPlaylists rt env st)))
            \<and> \<not> ld_syncTracks (loading (final (syncMasterTracks rt env st)))
            \<and> \<not> ld_syncAll (loading (final (syncAll rt env st))))"
proof -
  have p: "requests_of (trace (syncPlaylists rt env st))
             = [api_syncPlaylists (JBool (forceRefresh st)) (JBool False)]
       \<and> lastOperation (final (syncPlaylists rt env st)) = lastOperation st
       \<and> (click env = Some CancelButton \<longrightarrow>
            status (syncPlaylists rt env st) = Returned
            \<and> \<not> ld_syncPlaylists (loading (final (syncPlaylists rt env st))))"
    using sync_handler_declined[OF assms, of api_syncPlaylists syncPlaylists_prompt
        "''Confirm Playlist Sync''" "''Sync Playlists''" "''Playlists synced successfully''"
        "\<lambda>b l. l\<lparr>ld_syncPlaylists := b\<rparr>" rt st]
    unfolding syncPlaylists_handler by auto
  have t: "requests_of (trace (syncMasterTracks rt env st))
             = [api_syncTracks (JBool (forceRefresh st)) (JBool False)]
       \<and> lastOperation (final (syncMasterTracks rt env st)) = lastOperation st
       \<and> (click env = Some CancelButton \<longrightarrow>
            status (syncMasterTracks rt env st) = Returned
            \<and> \<not> ld_syncTracks (loading (final (syncMasterTracks rt env st))))"
    using sync_handler_declined[OF assms, of api_syncTracks syncMasterTracks_prompt
        "''Confirm Track Sync''" "''Sync Master Tracks''" "''Master tracks synced successfully''"
        "\<lambda>b l. l\<lparr>ld_syncTracks := b\<rparr>" rt st]
    unfolding syncMasterTracks_handler by auto
  have a: "requests_of (trace (syncAll rt env st))
             = [api_syncAll (JBool (forceRefresh st)) (JBool False)]
       \<and> lastOperation (final (syncAll rt env st)) = lastOperation st
       \<and> (click env = Some CancelButton \<longrightarrow>
            status (syncAll rt env st) = Returned
            \<and> \<not> ld_syncAll (loading (final (syncAll rt env st))))"
    using sync_handler_declined[OF assms, of api_syncAll syncAll_prompt
        "''Confirm Full Sync''" "''Sync All''" "''All sync operations completed successfully''"
        "\<lambda>b l. l\<lparr>ld_syncAll := b\<rparr>" rt st]
    unfolding syncAll_handler by auto
  from p t a show ?thesis by simp
qed



theorem declined_sync_sends_nothing_witness:
  "click declining_env = Some CancelButton
   \<and> requests_of (trace (syncPlaylists handler_runtime declining_env initial_view))
       = [post ''/sync/playlists'' (JObj [(''force_refresh'', JBool False), (''confirm'', JBool False)])]
   \<and> lastOperation (final (syncPlaylists handler_runtime declining_env initial_view))
       = lastOperation initial_view
   \<and> status (syncPlaylists handler_runtime declining_env initial_view) = Returned"
proof -
  have "analyze_reply declining_env =
      Resolved (JObj [(''needs_confirmation'', JBool True), (''analysis'', scenario_playlists)])"
    and "truthy (js_get_opt (JObj [(''needs_confirmation'', JBool True), (''analysis'', scenario_playlists)])
           ''needs_confirmation'')"
    and "click declining_env \<noteq> Some ConfirmButton" and "click declining_env = Some CancelButton"
    by (simp_all add: declining_env_def needs_confirmation_reply_def js_get_opt_def)
  from declined_sync_sends_nothing[OF this(1,2,3), of handler_runtime initial_view] this(4)
  show ?thesis
    by (simp add: api_syncPlaylists_def dflt_def initial_view_def)
qed

lemma sync_handler_unmarked:
  assumes "analyze_reply env = Resolved d0" and "js_get d0 ''needs_confirmation'' = Some nc"
    and "\<not> truthy nc"
  shows "prompt_for prompt (analyze_reply env) = None
       \<and> lastOperation (final (sync_handler api prompt title label done busy rt env st0))
           = \<lparr>op_type = label, op_success = True, op_stats = js_get_opt d0 ''stats'',
              op_error = JUndefined\<rparr>"
proof -
  from assms(2) have "non_nullish d0" by (rule js_get_Some_non_nullish)
  then have stats: "js_get d0 ''stats'' = Some (js_get_opt d0 ''stats'')"
    by (rule js_get_non_nullish)
  let ?st = "st0\<lparr>loading := busy True (loading st0), forceRefresh := checkbox_at_commit env st0,
                 lastOperation := \<lparr>op_type = label, op_success = True,
                                   op_stats = js_get_opt d0 ''stats'', op_error = JUndefined\<rparr>\<rparr>"
  let ?evs = "Request (api (JBool (forceRefresh st0)) (JBool False)) # edit_events (checkbox_edit env)
                @ [Response (Resolved d0)]"
  obtain f tail where sn: "showSnackbar rt done ''success'' ?st ?evs = (f, ?st, ?evs @ tail)"
    and "f \<noteq> Pending"
    using showSnackbar_shape by blast
  with assms stats show ?thesis
    by (cases f) (simp_all add: sync_handler_def finish_sync_def edit_checkbox_eq prompt_for_def)
qed

lemma syncAll_prompt_SomeD:
  assumes "syncAll_prompt analysis = Some (m, dt)"
  shows "\<exists>playlists added_text updated_text lines.
           js_get analysis ''playlists'' = Some playlists
         \<and> to_str (js_get_opt playlists ''added'') = Some added_text
         \<and> to_str (js_get_opt playlists ''updated'') = Some updated_text
         \<and> format_tracks (js_get_opt (js_get_opt analysis ''tracks'') ''added'') = Some lines
         \<and> m = ''Found '' @ added_text @ '' playlists to add, '' @ [CHR 0x0A]
               @ ''        '' @ updated_text @ '' to update, and '' @ [CHR 0x0A]
               @ ''        '' @ show_nat (length lines)
               @ '' tracks to add. Would you like to proceed?''
         \<and> dt = JObj [(''playlists'', playlists),
                      (''tracks'', JObj [(''added_tracks'', JArr (map JStr lines))])]"
  using assms
  by (auto simp: syncAll_prompt_def js_get_opt_def split: Option.bind_splits)

lemma syncAll_prompt_details:
  assumes "syncAll_prompt analysis = Some (m, dt)"
  shows "\<exists>playlists lines. dt = JObj [(''playlists'', playlists),
                                        (''tracks'', JObj [(''added_tracks'', JArr lines)])]"
  using syncAll_prompt_SomeD[OF assms] by blast

lemma prompt_for_syncAll_details:
  assumes "prompt_for syncAll_prompt r = Some (m, dt)"
  shows "\<exists>playlists lines. dt = JObj [(''playlists'', playlists),
                                        (''tracks'', JObj [(''added_tracks'', JArr lines)])]"
proof -
  from assms obtain d0 where "Option.bind (js_get d0 ''analysis'') syncAll_prompt = Some (m, dt)"
    by (rule prompt_for_SomeD)
  then obtain an where "syncAll_prompt an = Some (m, dt)"
    by (auto split: Option.bind_splits)
  then show ?thesis by (rule syncAll_prompt_details)
qed

lemma full_sync_details_unlisted:
  "list_panel (JObj [(''playlists'', playlists), (''tracks'', tracks)]) ''to_add'' heading item = NoPanel"
  "list_panel (JObj [(''playlists'', playlists), (''tracks'', tracks)]) ''to_update'' heading item = NoPanel"
  by (simp_all add: list_panel_def)

lemma api_payloads:
  "api_syncPlaylists (JBool x) (JBool b) =
     post ''/sync/playlists'' (JObj [(''force_refresh'', JBool x), (''confirm'', JBool b)])"
  "api_syncTracks (JBool x) (JBool b) =
     post ''/sync/tracks'' (JObj [(''force_refresh'', JBool x), (''confirm'', JBool b)])"
  "api_syncAll (JBool x) (JBool b) =
     post ''/sync/all'' (JObj [(''force_refresh'', JBool x), (''confirm'', JBool b)])"
  by (simp_all add: api_syncPlaylists_def api_syncTracks_def api_syncAll_def dflt_def)

lemma show_nat_1: "show_nat 1 = ''1''"
  by code_simp

lemma show_nat_Suc_0 [simp]: "show_nat (Suc 0) = ''1''"
  using show_nat_1 by simp

lemma number_text_small [simp]: "number_text 0 = ''0''" "number_text 1 = ''1''"
  by code_simp+

text \<open>
  C4, as the claim states it, fails: not every run of \<open>syncAll\<close> presents an
  analysis. When the reply to the first call is not marked \<open>needs_confirmation\<close>,
  no dialog is shown, nothing is confirmed, the call with \<open>confirm = false\<close> is the
  only request, and its stats are stored as the result of the operation.
\<close>

theorem syncAll_one_confirmation_counterexample:
  "dialogs_of (trace (syncAll handler_runtime nothing_to_confirm_env initial_view)) = []
   \<and> clicks_of (trace (syncAll handler_runtime nothing_to_confirm_env initial_view)) = []
   \<and> requests_of (trace (syncAll handler_runtime nothing_to_confirm_env initial_view))
       = [post ''/sync/all'' (JObj [(''force_refresh'', JBool False), (''confirm'', JBool False)])]
   \<and> lastOperation (final (syncAll handler_runtime nothing_to_confirm_env initial_view))
       = \<lparr>op_type = ''Sync All'', op_success = True,
          op_stats = JObj [(''added'', JNum 1), (''updated'', JNum 1), (''unchanged'', JNum 0)],
          op_error = JUndefined\<rparr>"
  by (simp add: syncAll_def nothing_to_confirm_env_def stats_reply_def handler_runtime_def
      initial_view_def edit_checkbox_def showSnackbar_def finish_sync_def api_payloads)

text \<open>
  C4, amended: the claim holds of the runs of \<open>syncAll\<close> whose first call returns an
  analysis marked \<open>needs_confirmation\<close>.

  For such a run exactly one dialog, Confirm Full Sync, is put up. Its text is the
  one sentence that gives the number of playlists to add, the number of playlists
  to update and the number of tracks to add, read from the \<open>playlists\<close> part and the
  \<open>tracks\<close> part of the one analysis; that title and that text are what the dialog
  shows while it waits for the answer. A click on Confirm is then followed by
  exactly one request, to \<open>/sync/all\<close> with \<open>confirm = true\<close>, and the stats of the
  reply to that request become \<open>lastOperation.stats\<close> as they are; without that
  click the first call stays the only request and \<open>lastOperation\<close> is untouched.

  For a run whose first reply is not marked, no dialog is put up, the first call is
  the only request, and the stats of its reply become \<open>lastOperation.stats\<close>.

  In every run, each request goes to \<open>/sync/all\<close>, none to \<open>/sync/playlists\<close> or
  \<open>/sync/tracks\<close>, and a second request comes only with \<open>confirm = true\<close>, after the
  one dialog and the one click on Confirm. What the server does with that request is
  not code of the front end.
\<close>

theorem syncAll_one_confirmation:
  "(\<forall>d analysis m dt.
       analyze_reply env = Resolved d \<and> truthy (js_get_opt d ''needs_confirmation'')
       \<and> js_get d ''analysis'' = Some analysis \<and> syncAll_prompt analysis = Some (m, dt) \<longrightarrow>
       (\<exists>playlists added_text updated_text lines.
           js_get analysis ''playlists'' = Some playlists
         \<and> to_str (js_get_opt playlists ''added'') = Some added_text
         \<and> to_str (js_get_opt playlists ''updated'') = Some updated_text
         \<and> format_tracks (js_get_opt (js_get_opt analysis ''tracks'') ''added'') = Some lines
         \<and> m = ''Found '' @ added_text @ '' playlists to add, '' @ [CHR 0x0A]
               @ ''        '' @ updated_text @ '' to update, and '' @ [CHR 0x0A]
               @ ''        '' @ show_nat (length lines)
               @ '' tracks to add. Would you like to proceed?'')
       \<and> dialogs_of (trace (syncAll rt env st)) = [(''Confirm Full Sync'', m, dt)]
       \<and> render_dialog (dialog (final (syncAll rt (env\<lparr>click := None\<rparr>) st)))
           = Some \<lparr>shown_title = ''Confirm Full Sync'', shown_text = m,
                   to_add_panel = NoPanel, to_update_panel = NoPanel\<rparr>
       \<and> (if click env = Some ConfirmButton
           then clicks_of (trace (syncAll rt env st)) = [ConfirmButton]
             \<and> requests_of (trace (syncAll rt env st)) =
                 [api_syncAll (JBool (forceRefresh st)) (JBool False),
                  api_syncAll (JBool (checkbox_at_commit env st)) (JBool True)]
             \<and> lastOperation (final (syncAll rt env st)) =
                 (case commit_reply env of
                    Rejected e \<Rightarrow> lastOperation st
                  | Resolved d2 \<Rightarrow>
                      (case js_get d2 ''stats'' of
                         None \<Rightarrow> lastOperation st
                       | Some stats \<Rightarrow> \<lparr>op_type = ''Sync All'', op_success = True,
                                        op_stats = stats, op_error = JUndefined\<rparr>))
           else clicks_of (trace (syncAll rt env st)) = (case click env of None \<Rightarrow> [] | Some b \<Rightarrow> [b])
             \<and> requests_of (trace (syncAll rt env st)) =
                 [api_syncAll (JBool (forceRefresh st)) (JBool False)]
             \<and> lastOperation (final (syncAll rt env st)) = lastOperation st))
   \<and> (\<forall>d nc.
         analyze_reply env = Resolved d \<and> js_get d ''needs_confirmation'' = Some nc \<and> \<not> truthy nc \<longrightarrow>
         dialogs_of (trace (syncAll rt env st)) = []
         \<and> clicks_of (trace (syncAll rt env st)) = []
         \<and> requests_of (trace (syncAll rt env st)) =
             [api_syncAll (JBool (forceRefresh st)) (JBool False)]
         \<and> lastOperation (final (syncAll rt env st)) =
             \<lparr>op_type = ''Sync All'', op_success = True, op_stats = js_get_opt d ''stats'',
              op_error = JUndefined\<rparr>)
   \<and> (requests_of (trace (syncAll rt env st)) =
         [api_syncAll (JBool (forceRefresh st)) (JBool False)]
       \<or> requests_of (trace (syncAll rt env st)) =
           [api_syncAll (JBool (forceRefresh st)) (JBool False),
            api_syncAll (JBool (checkbox_at_commit env st)) (JBool True)]
         \<and> clicks_of (trace (syncAll rt env st)) = [ConfirmButton]
         \<and> length (dialogs_of (trace (syncAll rt env st))) = 1)
   \<and> path (api_syncAll (JBool (forceRefresh st)) (JBool False)) = ''/sync/all''
   \<and> confirm_of (api_syncAll (JBool (forceRefresh st)) (JBool False)) = JBool False
   \<and> path (api_syncAll (JBool (checkbox_at_commit env st)) (JBool True)) = ''/sync/all''
   \<and> confirm_of (api_syncAll (JBool (checkbox_at_commit env st)) (JBool True)) = JBool True"
proof -
  let ?R = "syncAll rt env st"
  let ?a = "api_syncAll (JBool (forceRefresh st)) (JBool False)"
  let ?c = "api_syncAll (JBool (checkbox_at_commit env st)) (JBool True)"
  note cases = sync_handler_cases[of syncAll_prompt env api_syncAll "''Confirm Full Sync''"
      "''Sync All''" "''All sync operations completed successfully''" "\<lambda>b l. l\<lparr>ld_syncAll := b\<rparr>" rt st]
  have marked: "(\<exists>playlists added_text updated_text lines.
           js_get analysis ''playlists'' = Some playlists
         \<and> to_str (js_get_opt playlists ''added'') = Some added_text
         \<and> to_str (js_get_opt playlists ''updated'') = Some updated_text
         \<and> format_tracks (js_get_opt (js_get_opt analysis ''tracks'') ''added'') = Some lines
         \<and> m = ''Found '' @ added_text @ '' playlists to add, '' @ [CHR 0x0A]
               @ ''        '' @ updated_text @ '' to update, and '' @ [CHR 0x0A]
               @ ''        '' @ show_nat (length lines)
               @ '' tracks to add. Would you like to proceed?'')
       \<and> dialogs_of (trace ?R) = [(''Confirm Full Sync'', m, dt)]
       \<and> render_dialog (dialog (final (syncAll rt (env\<lparr>click := None\<rparr>) st)))
           = Some \<lparr>shown_title = ''Confirm Full Sync'', shown_text = m,
                   to_add_panel = NoPanel, to_update_panel = NoPanel\<rparr>
       \<and> (if click env = Some ConfirmButton
           then clicks_of (trace ?R) = [ConfirmButton]
             \<and> requests_of (trace ?R) = [?a, ?c]
             \<and> lastOperation (final ?R) =
                 (case commit_reply env of
                    Rejected e \<Rightarrow> lastOperation st
                  | Resolved d2 \<Rightarrow>
                      (case js_get d2 ''stats'' of
                         None \<Rightarrow> lastOperation st
                       | Some stats \<Rightarrow> \<lparr>op_type = ''Sync All'', op_success = True,
                                        op_stats = stats, op_error = JUndefined\<rparr>))
           else clicks_of (trace ?R) = (case click env of None \<Rightarrow> [] | Some b \<Rightarrow> [b])
             \<and> requests_of (trace ?R) = [?a]
             \<and> lastOperation (final ?R) = lastOperation st)"
    if h: "analyze_reply env = Resolved d \<and> truthy (js_get_opt d ''needs_confirmation'')
       \<and> js_get d ''analysis'' = Some analysis \<and> syncAll_prompt analysis = Some (m, dt)"
    for d analysis m dt
  proof -
    from h have nc: "js_get d ''needs_confirmation'' = Some (js_get_opt d ''needs_confirmation'')"
      by (intro truthy_js_get_opt) simp
    with h have p: "prompt_for syncAll_prompt (analyze_reply env) = Some (m, dt)"
      by (simp add: prompt_for_def)
    from h syncAll_prompt_SomeD[of analysis m dt] obtain playlists added_text updated_text lines where
      shape: "js_get analysis ''playlists'' = Some playlists"
        "to_str (js_get_opt playlists ''added'') = Some added_text"
        "to_str (js_get_opt playlists ''updated'') = Some updated_text"
        "format_tracks (js_get_opt (js_get_opt analysis ''tracks'') ''added'') = Some lines"
        "m = ''Found '' @ added_text @ '' playlists to add, '' @ [CHR 0x0A]
               @ ''        '' @ updated_text @ '' to update, and '' @ [CHR 0x0A]
               @ ''        '' @ show_nat (length lines)
               @ '' tracks to add. Would you like to proceed?''"
        "dt = JObj [(''playlists'', playlists),
                    (''tracks'', JObj [(''added_tracks'', JArr (map JStr lines))])]"
      by blast
    have dl: "dialogs_of (trace ?R) = [(''Confirm Full Sync'', m, dt)]"
      unfolding syncAll_handler using p by (rule sync_handler_dialogs)
    have "prompt_for syncAll_prompt (analyze_reply (env\<lparr>click := None\<rparr>)) = Some (m, dt)"
      and "click (env\<lparr>click := None\<rparr>) = None"
      using p by simp_all
    then have "dialog (final (syncAll rt (env\<lparr>click := None\<rparr>) st)) =
        \<lparr>dlg_show = True, dlg_title = ''Confirm Full Sync'', dlg_text = m, dlg_details = dt,
         dlg_action = ResolveTrue, dlg_cancel = Some ResolveFalse\<rparr>"
      unfolding syncAll_handler by (simp add: sync_handler_unanswered)
    then have rd: "render_dialog (dialog (final (syncAll rt (env\<lparr>click := None\<rparr>) st)))
           = Some \<lparr>shown_title = ''Confirm Full Sync'', shown_text = m,
                   to_add_panel = NoPanel, to_update_panel = NoPanel\<rparr>"
      by (simp add: render_dialog_def shape(6) full_sync_details_unlisted)
    have rest: "if click env = Some ConfirmButton
           then clicks_of (trace ?R) = [ConfirmButton]
             \<and> requests_of (trace ?R) = [?a, ?c]
             \<and> lastOperation (final ?R) =
                 (case commit_reply env of
                    Rejected e \<Rightarrow> lastOperation st
                  | Resolved d2 \<Rightarrow>
                      (case js_get d2 ''stats'' of
                         None \<Rightarrow> lastOperation st
                       | Some stats \<Rightarrow> \<lparr>op_type = ''Sync All'', op_success = True,
                                        op_stats = stats, op_error = JUndefined\<rparr>))
           else clicks_of (trace ?R) = (case click env of None \<Rightarrow> [] | Some b \<Rightarrow> [b])
             \<and> requests_of (trace ?R) = [?a]
             \<and> lastOperation (final ?R) = lastOperation st"
    proof (cases rule: cases)
      case (no_prompt tail)
      with p show ?thesis by simp
    next
      case (unanswered m' d')
      then show ?thesis unfolding syncAll_handler by (simp add: silentD)
    next
      case (cancelled m' d')
      then show ?thesis unfolding syncAll_handler by (simp add: silentD)
    next
      case (confirmed m' d' tail)
      then show ?thesis unfolding syncAll_handler by (simp add: silentD)
    qed
    from shape(1-5) dl rd rest show ?thesis by blast
  qed
  have unmarked: "dialogs_of (trace ?R) = [] \<and> clicks_of (trace ?R) = []
         \<and> requests_of (trace ?R) = [?a]
         \<and> lastOperation (final ?R) =
             \<lparr>op_type = ''Sync All'', op_success = True, op_stats = js_get_opt d ''stats'',
              op_error = JUndefined\<rparr>"
    if h: "analyze_reply env = Resolved d \<and> js_get d ''needs_confirmation'' = Some nc \<and> \<not> truthy nc"
    for d nc
  proof -
    from h have u: "prompt_for syncAll_prompt (analyze_reply env) = None"
      and l: "lastOperation (final ?R) =
             \<lparr>op_type = ''Sync All'', op_success = True, op_stats = js_get_opt d ''stats'',
              op_error = JUndefined\<rparr>"
      unfolding syncAll_handler using sync_handler_unmarked[of env d nc] by simp_all
    show ?thesis
    proof (cases rule: cases)
      case (no_prompt tail)
      with l show ?thesis unfolding syncAll_handler by (simp add: silentD)
    qed (use u in simp_all)
  qed
  have always: "requests_of (trace ?R) = [?a]
       \<or> requests_of (trace ?R) = [?a, ?c]
         \<and> clicks_of (trace ?R) = [ConfirmButton]
         \<and> length (dialogs_of (trace ?R)) = 1"
  proof (cases rule: cases)
    case (no_prompt tail)
    then show ?thesis unfolding syncAll_handler by (simp add: silentD)
  next
    case (unanswered m d)
    then show ?thesis unfolding syncAll_handler by (simp add: silentD)
  next
    case (cancelled m d)
    then show ?thesis unfolding syncAll_handler by (simp add: silentD)
  next
    case (confirmed m d tail)
    then show ?thesis unfolding syncAll_handler by (simp add: silentD)
  qed
  from marked unmarked always show ?thesis
    by (intro conjI allI impI) (simp_all add: api_payloads post_def confirm_of_def js_get_opt_def)
qed

theorem syncAll_one_confirmation_witness:
  "dialogs_of (trace (syncAll handler_runtime full_sync_env initial_view)) =
     [(''Confirm Full Sync'',
       ''Found 1 playlists to add, '' @ [CHR 0x0A] @ ''        1 to update, and '' @ [CHR 0x0A]
         @ ''        1 tracks to add. Would you like to proceed?'',
       JObj [(''playlists'', scenario_playlists),
             (''tracks'', JObj [(''added_tracks'', JArr [JStr ''Band - Song (Record)''])])])]
   \<and> clicks_of (trace (syncAll handler_runtime full_sync_env initial_view)) = [ConfirmButton]
   \<and> map path (requests_of (trace (syncAll handler_runtime full_sync_env initial_view)))
       = [''/sync/all'', ''/sync/all'']
   \<and> map confirm_of (requests_of (trace (syncAll handler_runtime full_sync_env initial_view)))
       = [JBool False, JBool True]
   \<and> lastOperation (final (syncAll handler_runtime full_sync_env initial_view))
       = \<lparr>op_type = ''Sync All'', op_success = True,
          op_stats = JObj [(''added'', JNum 1), (''updated'', JNum 1), (''unchanged'', JNum 0)],
          op_error = JUndefined\<rparr>
   \<and> lastOperation (final (syncAll handler_runtime nothing_to_confirm_env initial_view))
       = \<lparr>op_type = ''Sync All'', op_success = True,
          op_stats = JObj [(''added'', JNum 1), (''updated'', JNum 1), (''unchanged'', JNum 0)],
          op_error = JUndefined\<rparr>"
proof -
  let ?d = "JObj [(''needs_confirmation'', JBool True), (''analysis'', scenario_all)]"
  let ?m = "''Found 1 playlists to add, '' @ [CHR 0x0A] @ ''        1 to update, and '' @ [CHR 0x0A]
         @ ''        1 tracks to add. Would you like to proceed?''"
  let ?dt = "JObj [(''playlists'', scenario_playlists),
             (''tracks'', JObj [(''added_tracks'', JArr [JStr ''Band - Song (Record)''])])]"
  let ?s = "JObj [(''success'', JBool True),
                  (''stats'', JObj [(''added'', JNum 1), (''updated'', JNum 1), (''unchanged'', JNum 0)])]"
  have marked: "analyze_reply full_sync_env = Resolved ?d \<and> truthy (js_get_opt ?d ''needs_confirmation'')
       \<and> js_get ?d ''analysis'' = Some scenario_all \<and> syncAll_prompt scenario_all = Some (?m, ?dt)"
    by (simp add: full_sync_env_def needs_confirmation_reply_def js_get_opt_def syncAll_prompt_def
        scenario_all_def scenario_tracks_def scenario_playlists_def format_tracks_def format_track_def)
  have unmarked: "analyze_reply nothing_to_confirm_env = Resolved ?s
       \<and> js_get ?s ''needs_confirmation'' = Some JUndefined \<and> \<not> truthy JUndefined"
    by (simp add: nothing_to_confirm_env_def stats_reply_def)
  have c: "click full_sync_env = Some ConfirmButton"
    and r: "commit_reply full_sync_env = stats_reply"
    and f: "checkbox_at_commit full_sync_env initial_view = False" "forceRefresh initial_view = False"
    by (simp_all add: full_sync_env_def checkbox_at_commit_def initial_view_def)
  from syncAll_one_confirmation[of full_sync_env handler_runtime initial_view, THEN conjunct1,
      rule_format, OF marked]
    syncAll_one_confirmation[of nothing_to_confirm_env handler_runtime initial_view,
      THEN conjunct2, THEN conjunct1, rule_format, OF unmarked]
  show ?thesis
    by (simp add: c r f stats_reply_def api_payloads post_def confirm_of_def js_get_opt_def)
qed

lemma sync_handler_requests:
  "requests_of (trace (sync_handler api prompt title label done busy rt env st0))
     = [api (JBool (forceRefresh st0)) (JBool False)]
   \<or> requests_of (trace (sync_handler api prompt title label done busy rt env st0))
     = [api (JBool (forceRefresh st0)) (JBool False), api (JBool (checkbox_at_commit env st0)) (JBool True)]"
  by (cases rule: sync_handler_cases[of prompt env api title label "done" busy rt st0])
    (simp_all add: silentD)

text \<open>
  C5, as the claim states it, fails: the second call reads the checkbox again. With
  the checkbox off at the click on Sync Playlists and switched on while the first
  request is in flight, the analysis call carries \<open>force_refresh = false\<close> and the
  confirm call \<open>force_refresh = true\<close>.
\<close>

theorem commit_call_inputs_counterexample:
  "map force_refresh_of (requests_of (trace (syncPlaylists handler_runtime toggling_env initial_view)))
     = [JBool False, JBool True]
   \<and> map confirm_of (requests_of (trace (syncPlaylists handler_runtime toggling_env initial_view)))
     = [JBool False, JBool True]"
  by (simp add: syncPlaylists_def syncPlaylists_confirmed_def syncPlaylists_prompt_def
      toggling_env_def needs_confirmation_reply_def stats_reply_def scenario_playlists_def
      handler_runtime_def initial_view_def edit_checkbox_def confirmDialog_def click_button_def
      click_confirm_def hide_dialog_def showSnackbar_def finish_sync_def api_payloads
      force_refresh_of_def confirm_of_def js_get_opt_def post_def)

text \<open>
  C5, amended. The requests of a run are the analysis call alone, or the analysis
  call and one confirm call. The confirm call's data has exactly two fields:
  \<open>force_refresh\<close>, the value of the checkbox at the moment of that call, and
  \<open>confirm = true\<close>; nothing of the analysis is in it. When the checkbox is not
  changed between the two calls, that is the \<open>force_refresh\<close> of the analysis call.
\<close>

theorem commit_call_inputs:
  "(requests_of (trace (syncPlaylists rt env st)) =
      [post ''/sync/playlists'' (JObj [(''force_refresh'', JBool (forceRefresh st)), (''confirm'', JBool False)])]
    \<or> requests_of (trace (syncPlaylists rt env st)) =
      [post ''/sync/playlists'' (JObj [(''force_refresh'', JBool (forceRefresh st)), (''confirm'', JBool False)]),
       post ''/sync/playlists''
         (JObj [(''force_refresh'', JBool (checkbox_at_commit env st)), (''confirm'', JBool True)])])
   \<and> (requests_of (trace (syncMasterTracks rt env st)) =
      [post ''/sync/tracks'' (JObj [(''force_refresh'', JBool (forceRefresh st)), (''confirm'', JBool False)])]
    \<or> requests_of (trace (syncMasterTracks rt env st)) =
      [post ''/sync/tracks'' (JObj [(''force_refresh'', JBool (forceRefresh st)), (''confirm'', JBool False)]),
       post ''/sync/tracks''
         (JObj [(''force_refresh'', JBool (checkbox_at_commit env st)), (''confirm'', JBool True)])])
   \<and> (requests_of (trace (syncAll rt env st)) =
      [post ''/sync/all'' (JObj [(''force_refresh'', JBool (forceRefresh st)), (''confirm'', JBool False)])]
    \<or> requests_of (trace (syncAll rt env st)) =
      [post ''/sync/all'' (JObj [(''force_refresh'', JBool (forceRefresh st)), (''confirm'', JBool False)]),
       post ''/sync/all''
         (JObj [(''force_refresh'', JBool (checkbox_at_commit env st)), (''confirm'', JBool True)])])
   \<and> (checkbox_edit env = None \<longrightarrow> checkbox_at_commit env st = forceRefresh st)"
  using sync_handler_requests[of api_syncPlaylists syncPlaylists_prompt "''Confirm Playlist Sync''"
      "''Sync Playlists''" "''Playlists synced successfully''" "\<lambda>b l. l\<lparr>ld_syncPlaylists := b\<rparr>" rt env st]
    sync_handler_requests[of api_syncTracks syncMasterTracks_prompt "''Confirm Track Sync''"
      "''Sync Master Tracks''" "''Master tracks synced successfully''" "\<lambda>b l. l\<lparr>ld_syncTracks := b\<rparr>" rt env st]
    sync_handler_requests[of api_syncAll syncAll_prompt "''Confirm Full Sync''"
      "''Sync All''" "''All sync operations completed successfully''" "\<lambda>b l. l\<lparr>ld_syncAll := b\<rparr>" rt env st]
  unfolding syncPlaylists_handler[symmetric] syncMasterTracks_handler[symmetric] syncAll_handler[symmetric]
    api_payloads
  by (simp add: checkbox_at_commit_def)

theorem commit_call_inputs_witness:
  "checkbox_edit confirming_env = None
   \<and> requests_of (trace (syncPlaylists handler_runtime confirming_env initial_view)) =
      [post ''/sync/playlists'' (JObj [(''force_refresh'', JBool False), (''confirm'', JBool False)]),
       post ''/sync/playlists'' (JObj [(''force_refresh'', JBool False), (''confirm'', JBool True)])]"
proof -
  have e: "checkbox_edit confirming_env = None"
    by (simp add: confirming_env_def)
  have n: "length (requests_of (trace (syncPlaylists handler_runtime confirming_env initial_view))) = 2"
    by (simp add: syncPlaylists_def syncPlaylists_confirmed_def syncPlaylists_prompt_def
      confirming_env_def needs_confirmation_reply_def stats_reply_def scenario_playlists_def
      handler_runtime_def initial_view_def edit_checkbox_def confirmDialog_def click_button_def
      click_confirm_def hide_dialog_def showSnackbar_def finish_sync_def)
  from commit_call_inputs[of handler_runtime confirming_env initial_view] e n show ?thesis
    by (auto simp: initial_view_def)
qed



lemma silent_append [simp]: "silent (xs @ ys) = (silent xs \<and> silent ys)"
  by (auto simp: silent_def)

lemma silent_snack [simp]:
  "silent (Snackbar t c # es) = silent es"
  "silent (ConsoleError t # es) = silent es"
  by (simp_all add: silent_def)

lemma clearDatabase_trace:
  "\<exists>tail. trace (clearDatabase rt reply st evs) = evs @ Request api_clearDatabase # Response reply # tail
     \<and> silent tail"
  by (cases reply; cases "currentInstance rt")
    (auto simp: clearDatabase_def showSnackbar_def finish_call_def Let_def split: option.splits)

lemma syncToMaster_trace:
  "\<exists>tail. trace (syncToMaster rt reply st) = Request api_syncToMaster # Response reply # tail
     \<and> silent tail"
  by (cases reply; cases "currentInstance rt")
    (auto simp: syncToMaster_def showSnackbar_def finish_call_def Let_def split: option.splits)

lemma syncUnplaylisted_trace:
  "\<exists>tail. trace (syncUnplaylisted rt reply st) = Request api_syncUnplaylisted # Response reply # tail
     \<and> silent tail"
  by (cases reply; cases "currentInstance rt")
    (auto simp: syncUnplaylisted_def showSnackbar_def finish_call_def Let_def split: option.splits)

lemma clearCache_trace:
  "\<exists>tail. trace (clearCache rt reply st) = Request api_clearCache # Response reply # tail
     \<and> silent tail"
  by (cases reply; cases "currentInstance rt")
    (auto simp: clearCache_def showSnackbar_def finish_call_def Let_def split: option.splits)

text \<open>
  C2, as the claim states it, fails: \<open>syncToMaster\<close> and \<open>syncUnplaylisted\<close> put up no
  dialog. Their request is the first event of the run, with no click on Confirm
  before it.
\<close>

theorem remote_push_counterexample:
  "\<not> confirmed_first
        (trace (syncToMaster snackbar_runtime (Resolved (JObj [(''success'', JBool True)])) initial_view))
   \<and> \<not> confirmed_first
        (trace (syncUnplaylisted snackbar_runtime (Resolved (JObj [(''success'', JBool True)])) initial_view))"
  by (simp add: syncToMaster_def syncUnplaylisted_def showSnackbar_def finish_call_def
      snackbar_runtime_def)

text \<open>
  C2, amended. \<open>syncToMaster\<close> and \<open>syncUnplaylisted\<close> issue their request at once:
  it is the first event of the run, a POST with no data (so no \<open>confirm\<close> field),
  and it is the only request; no dialog is shown and no dialog button is clicked
  in the run. The click on the operation's own button is the only user action
  before the request.
\<close>

theorem remote_push_is_immediate:
  "(\<exists>tail. trace (syncToMaster rt reply st) =
        Request \<lparr>meth = POST, path = ''/spotify/sync-to-master'', payload = JUndefined\<rparr> # tail
      \<and> requests_of tail = [] \<and> dialogs_of tail = [] \<and> clicks_of tail = [])
   \<and> (\<exists>tail. trace (syncUnplaylisted rt reply st) =
        Request \<lparr>meth = POST, path = ''/spotify/sync-unplaylisted'', payload = JUndefined\<rparr> # tail
      \<and> requests_of tail = [] \<and> dialogs_of tail = [] \<and> clicks_of tail = [])"
proof -
  from syncToMaster_trace[of rt reply st] obtain t1 where
    "trace (syncToMaster rt reply st) = Request api_syncToMaster # Response reply # t1" "silent t1"
    by blast
  moreover from syncUnplaylisted_trace[of rt reply st] obtain t2 where
    "trace (syncUnplaylisted rt reply st) = Request api_syncUnplaylisted # Response reply # t2" "silent t2"
    by blast
  ultimately show ?thesis
    by (simp add: api_syncToMaster_def api_syncUnplaylisted_def post_def silentD)
qed

text \<open>
  C7. The Clear Database button only puts up the dialog. The request to
  \<open>/db/clear\<close> is issued when, and only when, the user then clicks Confirm, and it
  comes after that click; when the user clicks Cancel or neither button, the run
  has no request at all.
\<close>

theorem clear_database_needs_confirmation:
  "confirmed_first (trace (clearDatabase_button rt env st))
   \<and> dialogs_of (trace (clearDatabase_button rt env st)) =
       [(''Clear Database'',
         ''Are you sure you want to clear all database tables? This action cannot be undone.'',
         JUndefined)]
   \<and> ((clear_click env = Some ConfirmButton
        \<and> (\<exists>d tail. trace (clearDatabase_button rt env st) =
              [d, Clicked ConfirmButton,
               Request \<lparr>meth = POST, path = ''/db/clear'', payload = JUndefined\<rparr>] @ tail
            \<and> requests_of tail = []))
      \<or> (clear_click env \<noteq> Some ConfirmButton
          \<and> requests_of (trace (clearDatabase_button rt env st)) = []))"
proof (cases "clear_click env")
  case None
  then show ?thesis
    by (simp add: clearDatabase_button_def confirmClearDatabase_def)
next
  case (Some b)
  show ?thesis
  proof (cases b)
    case CancelButton
    with Some show ?thesis
      by (simp add: clearDatabase_button_def confirmClearDatabase_def click_button_def
          click_cancel_def hide_dialog_def)
  next
    case ConfirmButton
    let ?d = "DialogShown ''Clear Database''
       ''Are you sure you want to clear all database tables? This action cannot be undone.'' JUndefined"
    let ?st = "st\<lparr>dialog := \<lparr>dlg_show = True, dlg_title = ''Clear Database'',
          dlg_text = ''Are you sure you want to clear all database tables? This action cannot be undone.'',
          dlg_details = JUndefined, dlg_action = ClearDatabase, dlg_cancel = None\<rparr>\<rparr>"
    have run: "clearDatabase_button rt env st =
        clearDatabase rt (clear_reply env) ?st [?d, Clicked ConfirmButton]"
      using Some ConfirmButton
      by (simp add: clearDatabase_button_def confirmClearDatabase_def click_button_def click_confirm_def)
    from clearDatabase_trace[of rt "clear_reply env" ?st "[?d, Clicked ConfirmButton]"]
    obtain tail where "trace (clearDatabase_button rt env st) =
        [?d, Clicked ConfirmButton] @ Request api_clearDatabase # Response (clear_reply env) # tail"
      and "silent tail"
      unfolding run by blast
    with Some ConfirmButton show ?thesis
      by (simp add: api_clearDatabase_def post_def silentD)
  qed
qed

text \<open>
  C8. \<open>clearCache\<close> issues its request at once: the POST to \<open>/cache/clear\<close> is the
  first event of the run, it has no data (so no \<open>confirm\<close> field), it is the only
  request, and the run shows no dialog and has no click on a dialog button.
\<close>

theorem clear_cache_is_immediate:
  "\<exists>tail. trace (clearCache rt reply st) =
       Request \<lparr>meth = POST, path = ''/cache/clear'', payload = JUndefined\<rparr> # tail
     \<and> requests_of tail = [] \<and> dialogs_of tail = [] \<and> clicks_of tail = []"
proof -
  from clearCache_trace[of rt reply st] obtain t where
    "trace (clearCache rt reply st) = Request api_clearCache # Response reply # t" "silent t"
    by blast
  then show ?thesis
    by (simp add: api_clearCache_def post_def silentD)
qed

text \<open>
  C9. Each of \<open>api.syncPlaylists\<close>, \<open>api.syncTracks\<close> and \<open>api.syncAll\<close>, called with
  no argument, sends \<open>force_refresh = false\<close> and \<open>confirm = false\<close>. In every call
  the \<open>confirm\<close> field is the second argument itself, or \<open>false\<close> when that argument
  is left out: the field is \<open>true\<close> exactly when the caller passed \<open>true\<close>, and it is
  truthy exactly when the caller passed a truthy value.
\<close>

theorem api_sync_defaults:
  "payload (api_syncPlaylists JUndefined JUndefined)
     = JObj [(''force_refresh'', JBool False), (''confirm'', JBool False)]
   \<and> payload (api_syncTracks JUndefined JUndefined)
     = JObj [(''force_refresh'', JBool False), (''confirm'', JBool False)]
   \<and> payload (api_syncAll JUndefined JUndefined)
     = JObj [(''force_refresh'', JBool False), (''confirm'', JBool False)]
   \<and> confirm_of (api_syncPlaylists force confirm)
     = (if confirm = JUndefined then JBool False else confirm)
   \<and> confirm_of (api_syncTracks force confirm)
     = (if confirm = JUndefined then JBool False else confirm)
   \<and> confirm_of (api_syncAll force confirm)
     = (if confirm = JUndefined then JBool False else confirm)
   \<and> (confirm_of (api_syncPlaylists force confirm) = JBool True) = (confirm = JBool True)
   \<and> (confirm_of (api_syncTracks force confirm) = JBool True) = (confirm = JBool True)
   \<and> (confirm_of (api_syncAll force confirm) = JBool True) = (confirm = JBool True)
   \<and> truthy (confirm_of (api_syncPlaylists force confirm)) = truthy confirm
   \<and> truthy (confirm_of (api_syncTracks force confirm)) = truthy confirm
   \<and> truthy (confirm_of (api_syncAll force confirm)) = truthy confirm"
  by (simp add: api_syncPlaylists_def api_syncTracks_def api_syncAll_def post_def confirm_of_def
      js_get_opt_def dflt_def)

subsection \<open>What the dialog lists of an analysis\<close>

lemma syncMasterTracks_prompt_details:
  assumes "syncMasterTracks_prompt analysis = Some (m, dt)"
  shows "\<exists>lines. dt = JObj [(''added_tracks'', JArr lines)]"
  using assms by (auto simp: syncMasterTracks_prompt_def split: Option.bind_splits)

lemma prompt_for_syncMasterTracks_details:
  assumes "prompt_for syncMasterTracks_prompt r = Some (m, dt)"
  shows "\<exists>lines. dt = JObj [(''added_tracks'', JArr lines)]"
proof -
  from assms obtain d0 where
    "Option.bind (js_get d0 ''analysis'') syncMasterTracks_prompt = Some (m, dt)"
    by (rule prompt_for_SomeD)
  then obtain an where "syncMasterTracks_prompt an = Some (m, dt)"
    by (auto split: Option.bind_splits)
  then show ?thesis by (rule syncMasterTracks_prompt_details)
qed

lemma track_details_unlisted:
  "list_panel (JObj [(''added_tracks'', lines)]) ''to_add'' heading item = NoPanel"
  "list_panel (JObj [(''added_tracks'', lines)]) ''to_update'' heading item = NoPanel"
  by (simp_all add: list_panel_def)

lemma sync_handler_dialog_up:
  assumes "click env = None"
    and "dialogs_of (trace (sync_handler api prompt title label done busy rt env st0)) \<noteq> []"
  shows "\<exists>m dt. prompt_for prompt (analyze_reply env) = Some (m, dt)
           \<and> dialog (final (sync_handler api prompt title label done busy rt env st0))
               = \<lparr>dlg_show = True, dlg_title = title, dlg_text = m, dlg_details = dt,
                  dlg_action = ResolveTrue, dlg_cancel = Some ResolveFalse\<rparr>"
proof (cases "prompt_for prompt (analyze_reply env)")
  case None
  from sync_handler_no_prompt[OF None, of api title label "done" busy rt st0] assms(2)
  show ?thesis by (auto simp: silentD)
next
  case (Some md)
  then obtain m dt where "prompt_for prompt (analyze_reply env) = Some (m, dt)"
    by (cases md) simp
  with sync_handler_unanswered[OF this assms(1), of api title label "done" busy rt st0]
  show ?thesis by simp
qed

text \<open>
  C6. The claim has every renamed playlist of an analysis rendered as an old/new
  pair, for the user who approves. The one template of the dialog lists
  \<open>details.to_add\<close> and \<open>details.to_update\<close> (lines 103 and 120). \<open>syncPlaylists\<close>
  passes the analysis itself as details, and its entries are listed. \<open>syncAll\<close>
  passes an object with the keys \<open>playlists\<close> and \<open>tracks\<close> (lines 331-334) and
  \<open>syncMasterTracks\<close> one with the key \<open>added_tracks\<close> (line 276): whatever the
  reply, while their dialog is up and unanswered it shows its title and its text
  and lists no entry, neither a renamed playlist nor a line of an added track.
\<close>

theorem full_sync_dialog_lists_no_entry:
  assumes "click env = None"
  shows
    "(dialogs_of (trace (syncAll rt env st)) \<noteq> [] \<longrightarrow>
        (\<exists>m. render_dialog (dialog (final (syncAll rt env st)))
               = Some \<lparr>shown_title = ''Confirm Full Sync'', shown_text = m,
                       to_add_panel = NoPanel, to_update_panel = NoPanel\<rparr>))
     \<and> (dialogs_of (trace (syncMasterTracks rt env st)) \<noteq> [] \<longrightarrow>
        (\<exists>m. render_dialog (dialog (final (syncMasterTracks rt env st)))
               = Some \<lparr>shown_title = ''Confirm Track Sync'', shown_text = m,
                       to_add_panel = NoPanel, to_update_panel = NoPanel\<rparr>))"
proof (intro conjI impI)
  assume "dialogs_of (trace (syncAll rt env st)) \<noteq> []"
  then obtain m dt where p: "prompt_for syncAll_prompt (analyze_reply env) = Some (m, dt)"
    and d: "dialog (final (syncAll rt env st))
               = \<lparr>dlg_show = True, dlg_title = ''Confirm Full Sync'', dlg_text = m, dlg_details = dt,
                  dlg_action = ResolveTrue, dlg_cancel = Some ResolveFalse\<rparr>"
    unfolding syncAll_handler using sync_handler_dialog_up[OF assms] by blast
  from prompt_for_syncAll_details[OF p] obtain playlists lines where
    "dt = JObj [(''playlists'', playlists), (''tracks'', JObj [(''added_tracks'', JArr lines)])]"
    by blast
  with d show "\<exists>m. render_dialog (dialog (final (syncAll rt env st)))
               = Some \<lparr>shown_title = ''Confirm Full Sync'', shown_text = m,
                       to_add_panel = NoPanel, to_update_panel = NoPanel\<rparr>"
    by (simp add: render_dialog_def full_sync_details_unlisted)
next
  assume "dialogs_of (trace (syncMasterTracks rt env st)) \<noteq> []"
  then obtain m dt where p: "prompt_for syncMasterTracks_prompt (analyze_reply env) = Some (m, dt)"
    and d: "dialog (final (syncMasterTracks rt env st))
               = \<lparr>dlg_show = True, dlg_title = ''Confirm Track Sync'', dlg_text = m, dlg_details = dt,
                  dlg_action = ResolveTrue, dlg_cancel = Some ResolveFalse\<rparr>"
    unfolding syncMasterTracks_handler using sync_handler_dialog_up[OF assms] by blast
  from prompt_for_syncMasterTracks_details[OF p] obtain lines where
    "dt = JObj [(''added_tracks'', JArr lines)]"
    by blast
  with d show "\<exists>m. render_dialog (dialog (final (syncMasterTracks rt env st)))
               = Some \<lparr>shown_title = ''Confirm Track Sync'', shown_text = m,
                       to_add_panel = NoPanel, to_update_panel = NoPanel\<rparr>"
    by (simp add: render_dialog_def track_details_unlisted)
qed

text \<open>
  The failing input: the analysis of a full sync in which playlist 1 was renamed
  from Old to New, the dialog left unanswered. The entry is in the payload, under
  \<open>analysis.playlists.to_update\<close>; the dialog of \<open>syncAll\<close> shows the three counts and
  no entry. On the same playlists analysis the dialog of \<open>syncPlaylists\<close> lists
  Fresh as added and the pair Old, New as updated.
\<close>

theorem full_sync_dialog_lists_no_entry_witness:
  "js_get_opt (js_get_opt scenario_all ''playlists'') ''to_update''
     = JArr [JObj [(''id'', JNum 1), (''old_name'', JStr ''Old''), (''name'', JStr ''New'')]]
   \<and> render_dialog (dialog (final (syncAll handler_runtime (viewing_env scenario_all) initial_view)))
       = Some \<lparr>shown_title = ''Confirm Full Sync'',
               shown_text =
                 ''Found 1 playlists to add, '' @ [CHR 0x0A] @ ''        1 to update, and ''
                   @ [CHR 0x0A] @ ''        1 tracks to add. Would you like to proceed?'',
               to_add_panel = NoPanel, to_update_panel = NoPanel\<rparr>
   \<and> render_dialog (dialog (final (syncMasterTracks handler_runtime (viewing_env scenario_tracks) initial_view)))
       = Some \<lparr>shown_title = ''Confirm Track Sync'',
               shown_text = ''Found 1 tracks to add. Would you like to proceed?'',
               to_add_panel = NoPanel, to_update_panel = NoPanel\<rparr>
   \<and> render_dialog (dialog (final (syncPlaylists handler_runtime (viewing_env scenario_playlists) initial_view)))
       = Some \<lparr>shown_title = ''Confirm Playlist Sync'',
               shown_text = ''Found 1 playlists to add and 1 to update.'',
               to_add_panel =
                 Panel [Lit ''Playlists to Add ('', Val (JNum 1), Lit '')''] [[Val (JStr ''Fresh'')]],
               to_update_panel =
                 Panel [Lit ''Playlists to Update ('', Val (JNum 1), Lit '')'']
                   [[Val (JStr ''Old''), Lit ('' '' @ arrow @ '' ''), Val (JStr ''New'')]]\<rparr>"
  using full_sync_dialog_lists_no_entry[of "viewing_env scenario_all" handler_runtime initial_view]
  by (simp add: syncAll_def syncMasterTracks_def syncPlaylists_def viewing_env_def
      needs_confirmation_reply_def handler_runtime_def initial_view_def edit_checkbox_def
      finish_sync_def confirmDialog_def syncAll_prompt_def syncMasterTracks_prompt_def
      syncPlaylists_prompt_def format_tracks_def format_track_def scenario_all_def
      scenario_tracks_def scenario_playlists_def render_dialog_def list_panel_def
      to_add_item_def to_update_item_def js_get_opt_def)

subsection \<open>\<open>calculatePercentage\<close>\<close>

lemma round_to_double_not_NaN [simp]: "round_to_double s a \<noteq> NaN"
  by (simp add: round_to_double_def Let_def)

lemma round_to_double_Infty:
  assumes "round_to_double s a = Infty b"
  shows "overflow_threshold \<le> a"
  using assms by (simp add: round_to_double_def Let_def split: if_splits)

lemma round_to_double_sign:
  assumes "round_to_double s a = Fin b q"
  shows "b = s"
  using assms by (simp add: round_to_double_def Let_def split: if_splits)

lemma math_round_Fin: "\<exists>b k. math_round (Fin s m) = Fin b k"
  by (simp add: Let_def)

lemma percentage_of_finite:
  assumes "n \<noteq> 0"
  shows "\<exists>r. math_round (js_times (js_divide (Fin s m) (Fin u n)) (Fin False 100)) = r \<and> r \<noteq> NaN
           \<and> ((\<exists>b. r = Infty b) \<longrightarrow>
                overflow_threshold \<le> m / n
                \<or> (\<exists>q. js_divide (Fin s m) (Fin u n) = Fin (s \<noteq> u) q \<and> overflow_threshold \<le> q * 100))"
proof (cases "round_to_double (s \<noteq> u) (m / n)")
  case NaN
  then show ?thesis by simp
next
  case (Infty b)
  then have "overflow_threshold \<le> m / n" by (rule round_to_double_Infty)
  with assms Infty show ?thesis by simp
next
  case (Fin b q)
  then have b: "b = (s \<noteq> u)" by (rule round_to_double_sign)
  show ?thesis
  proof (cases "round_to_double b (q * 100)")
    case NaN
    then show ?thesis by simp
  next
    case (Infty c)
    then have "overflow_threshold \<le> q * 100" by (rule round_to_double_Infty)
    with assms Fin Infty b show ?thesis by simp
  next
    case inner: (Fin c k)
    obtain b' k' where "math_round (Fin c k) = Fin b' k'"
      using math_round_Fin by blast
    with assms Fin inner show ?thesis by simp
  qed
qed

text \<open>
  C10, as the claim states it, fails. With \<open>part = NaN\<close> and \<open>total = 5\<close> the result
  is NaN; with the finite doubles \<open>part = 2^1023\<close> and \<open>total = 0.5\<close> the quotient
  overflows and the result is Infinity; and with \<open>total = NaN\<close>, which is not zero,
  \<open>null\<close> or \<open>undefined\<close>, the result is 0 and not
  \<open>Math.round((part / total) * 100)\<close>, which is NaN.
\<close>

theorem calculatePercentage_counterexample:
  "calculatePercentage (ArgNumber NaN) (ArgNumber (Fin False 5)) = Some NaN
   \<and> calculatePercentage (ArgNumber (Fin False (2 ^ 1023))) (ArgNumber (Fin False (1 / 2)))
       = Some (Infty False)
   \<and> calculatePercentage (ArgNumber (Fin False 1)) (ArgNumber NaN) = Some (Fin False 0)
   \<and> math_round (js_times (js_divide (Fin False 1) NaN) (Fin False 100)) = NaN"
  by (simp add: calculatePercentage_def round_to_double_def overflow_threshold_def)

text \<open>
  C10, amended. \<open>calculatePercentage\<close> returns 0 whenever \<open>total\<close> is falsy: a zero of
  either sign, NaN, \<open>null\<close>, \<open>undefined\<close>, \<open>false\<close> or the empty string. For numbers
  and a truthy \<open>total\<close> it returns \<open>Math.round((part / total) * 100)\<close>, and the
  divisor is then neither zero nor NaN: no division by zero is evaluated. For
  finite \<open>part\<close> and \<open>total\<close> the result is never NaN, and it is infinite only
  when the quotient, or the quotient times 100, reaches the overflow threshold of
  the doubles.
\<close>

theorem calculatePercentage_guarded:
  "(\<not> arg_truthy total' \<longrightarrow> calculatePercentage part total' = Some (Fin False 0))
   \<and> (\<forall>p t. part = ArgNumber p \<and> total' = ArgNumber t \<and> arg_truthy total' \<longrightarrow>
         calculatePercentage part total' = Some (math_round (js_times (js_divide p t) (Fin False 100)))
         \<and> t \<noteq> NaN \<and> (\<forall>s. t \<noteq> Fin s 0))
   \<and> (\<forall>s m u n. part = ArgNumber (Fin s m) \<and> total' = ArgNumber (Fin u n) \<longrightarrow>
         (\<exists>r. calculatePercentage part total' = Some r \<and> r \<noteq> NaN
            \<and> ((\<exists>b. r = Infty b) \<longrightarrow>
                 overflow_threshold \<le> m / n
                 \<or> (\<exists>q. js_divide (Fin s m) (Fin u n) = Fin (s \<noteq> u) q
                        \<and> overflow_threshold \<le> q * 100))))"
proof (intro conjI allI impI)
  assume "\<not> arg_truthy total'"
  then show "calculatePercentage part total' = Some (Fin False 0)"
    by (simp add: calculatePercentage_def)
next
  fix p t
  assume h: "part = ArgNumber p \<and> total' = ArgNumber t \<and> arg_truthy total'"
  then show "calculatePercentage part total' = Some (math_round (js_times (js_divide p t) (Fin False 100)))"
    by (auto simp: calculatePercentage_def)
  from h show "t \<noteq> NaN" by auto
  fix s
  from h show "t \<noteq> Fin s 0" by auto
next
  fix s m u n
  assume h: "part = ArgNumber (Fin s m) \<and> total' = ArgNumber (Fin u n)"
  show "\<exists>r. calculatePercentage part total' = Some r \<and> r \<noteq> NaN
            \<and> ((\<exists>b. r = Infty b) \<longrightarrow>
                 overflow_threshold \<le> m / n
                 \<or> (\<exists>q. js_divide (Fin s m) (Fin u n) = Fin (s \<noteq> u) q
                        \<and> overflow_threshold \<le> q * 100))"
  proof (cases "n = 0")
    case True
    with h show ?thesis by (simp add: calculatePercentage_def)
  next
    case False
    from percentage_of_finite[OF False, of s m u] h False show ?thesis
      by (simp add: calculatePercentage_def)
  qed
qed

lemma quarter_exact: "js_divide (Fin False 1) (Fin False 4) = Fin False (1 / 4)"
  by code_simp

lemma twenty_five_exact: "js_times (Fin False (1 / 4)) (Fin False 100) = Fin False 25"
  by code_simp

lemma round_25: "math_round (Fin False 25) = Fin False 25"
  by code_simp

theorem calculatePercentage_guarded_witness:
  "calculatePercentage (ArgNumber (Fin False 1)) (ArgNumber (Fin False 0)) = Some (Fin False 0)
   \<and> calculatePercentage (ArgNumber (Fin False 1)) (ArgNumber (Fin False 4)) = Some (Fin False 25)
   \<and> overflow_threshold \<le> 2 ^ 1023 / (1 / 2)"
proof -
  note g = calculatePercentage_guarded
  have z: "calculatePercentage (ArgNumber (Fin False 1)) (ArgNumber (Fin False 0)) = Some (Fin False 0)"
    using g[of "ArgNumber (Fin False 0)" "ArgNumber (Fin False 1)", THEN conjunct1] by simp
  have q: "calculatePercentage (ArgNumber (Fin False 1)) (ArgNumber (Fin False 4)) = Some (Fin False 25)"
    using g[of "ArgNumber (Fin False 4)" "ArgNumber (Fin False 1)", THEN conjunct2, THEN conjunct1,
        rule_format, of "Fin False 1" "Fin False 4"]
    using quarter_exact twenty_five_exact round_25 by simp
  have "calculatePercentage (ArgNumber (Fin False (2 ^ 1023))) (ArgNumber (Fin False (1 / 2)))
       = Some (Infty False)"
    by (simp add: calculatePercentage_def round_to_double_def overflow_threshold_def)
  with g[of "ArgNumber (Fin False (1 / 2))" "ArgNumber (Fin False (2 ^ 1023))", THEN conjunct2,
        THEN conjunct2, rule_format, of False "2 ^ 1023" False "1 / 2"]
  have o: "overflow_threshold \<le> 2 ^ 1023 / (1 / 2)"
    by (auto simp: round_to_double_def overflow_threshold_def split: if_splits)
  from z q o show ?thesis by simp
qed


end
